theory Spec2Isabelle
  imports Main
begin

section \<open>Python strings\<close>

text \<open>
  The build script \<^verbatim>\<open>setup.py\<close> drives four CMake projects through
  clone, configure, build and install. This theory embeds the script: its data
  (\<^verbatim>\<open>COMPONENTS\<close>, the command object \<^verbatim>\<open>self\<close>), the library
  calls it makes (\<^verbatim>\<open>pathlib\<close>, \<^verbatim>\<open>subprocess\<close>, \<^verbatim>\<open>print\<close>) and
  the two methods \<^verbatim>\<open>run\<close> and \<^verbatim>\<open>build_component\<close>.
\<close>

text \<open>\<^verbatim>\<open>sep.join(xs)\<close>\<close>

fun join_str :: "string \<Rightarrow> string list \<Rightarrow> string" where
  "join_str sep [] = []"
| "join_str sep [x] = x"
| "join_str sep (x # y # ys) = x @ sep @ join_str sep (y # ys)"

text \<open>\<^verbatim>\<open>s.split(c)\<close> for a one-character separator: never the empty list.\<close>

primrec split_on :: "char \<Rightarrow> string \<Rightarrow> string list" where
  "split_on c [] = [[]]"
| "split_on c (x # xs) =
     (if x = c then [] # split_on c xs
      else (case split_on c xs of [] \<Rightarrow> [[x]] | w # ws \<Rightarrow> (x # w) # ws))"

text \<open>\<^verbatim>\<open>s.startswith(p)\<close>\<close>

definition startswith :: "string \<Rightarrow> string \<Rightarrow> bool" where
  "startswith s p = (take (length p) s = p)"

text \<open>\<^verbatim>\<open>str(n)\<close> for an integer: decimal digits, a minus sign when negative.\<close>

fun str_nat :: "nat \<Rightarrow> string" where
  "str_nat n =
     (if n < 10 then [''0123456789'' ! n]
      else str_nat (n div 10) @ [''0123456789'' ! (n mod 10)])"

declare str_nat.simps [simp del]

definition str_int :: "int \<Rightarrow> string" where
  "str_int i = (if i < 0 then CHR ''-'' # str_nat (nat (- i)) else str_nat (nat i))"

section \<open>Paths: \<^verbatim>\<open>pathlib\<close>, POSIX flavour\<close>

text \<open>
  A \<^verbatim>\<open>Path\<close> is its root (\<^verbatim>\<open>""\<close>, \<^verbatim>\<open>"/"\<close> or \<^verbatim>\<open>"//"\<close>) and the
  list of its parts. Parsing drops empty parts and \<^verbatim>\<open>.\<close> parts; \<^verbatim>\<open>..\<close> is
  kept, as pathlib keeps it. The separator is the POSIX one; the script's logic
  does not depend on the flavour.
\<close>

type_synonym path = "string \<times> string list"

definition posix_root :: "string \<Rightarrow> string" where
  "posix_root s =
     (if take 2 s = ''//'' \<and> take 3 s \<noteq> ''///'' then ''//''
      else if take 1 s = ''/'' then ''/''
      else [])"

definition Path :: "string \<Rightarrow> path" where
  "Path s = (posix_root s, filter (\<lambda>p. p \<noteq> [] \<and> p \<noteq> ''.'') (split_on CHR ''/'' s))"

text \<open>\<^verbatim>\<open>str(p)\<close>\<close>

definition str_path :: "path \<Rightarrow> string" where
  "str_path p =
     (if fst p = [] \<and> snd p = [] then ''.'' else fst p @ join_str ''/'' (snd p))"

text \<open>\<^verbatim>\<open>p / s\<close>: an absolute right operand replaces the left one.\<close>

definition joinpath :: "path \<Rightarrow> string \<Rightarrow> path" where
  "joinpath p s =
     (if fst (Path s) \<noteq> [] then Path s else (fst p, snd p @ snd (Path s)))"

text \<open>\<^verbatim>\<open>p.absolute()\<close>, with the value of \<^verbatim>\<open>os.getcwd()\<close>.\<close>

definition absolute :: "string \<Rightarrow> path \<Rightarrow> path" where
  "absolute cwd p =
     (if fst p \<noteq> [] then p else (fst (Path cwd), snd (Path cwd) @ snd p))"

text \<open>\<^verbatim>\<open>p.parent\<close>: a path with no parts is its own parent.\<close>

definition parent :: "path \<Rightarrow> path" where
  "parent p = (fst p, butlast (snd p))"

section \<open>Exceptions\<close>

datatype pyerr =
    OSError
  | FileExistsError
  | FileNotFoundError
  | NotADirectoryError
  | NotImplementedError
  | RuntimeError string
  | CalledProcessError int "string list" "string option"

text \<open>\<^verbatim>\<open>except OSError\<close> catches the class and its subclasses.\<close>

fun is_OSError :: "pyerr \<Rightarrow> bool" where
  "is_OSError OSError = True"
| "is_OSError FileExistsError = True"
| "is_OSError FileNotFoundError = True"
| "is_OSError NotADirectoryError = True"
| "is_OSError _ = False"

section \<open>The file system and \<^verbatim>\<open>Path.mkdir\<close>\<close>

datatype node = Dir | File

type_synonym fs = "path \<Rightarrow> node option"

text \<open>
  \<^verbatim>\<open>os.mkdir(p)\<close>: fails when \<open>p\<close> exists, when its parent is missing and
  when its parent is not a directory.
\<close>

definition os_mkdir :: "fs \<Rightarrow> path \<Rightarrow> (pyerr + unit) \<times> fs" where
  "os_mkdir f p =
     (if f p \<noteq> None then (Inl FileExistsError, f)
      else (case f (parent p) of
              None \<Rightarrow> (Inl FileNotFoundError, f)
            | Some File \<Rightarrow> (Inl NotADirectoryError, f)
            | Some Dir \<Rightarrow> (Inr (), f(p \<mapsto> Dir))))"

text \<open>
  \<^verbatim>\<open>p.mkdir(parents=False, exist_ok=True)\<close>: a missing parent is raised;
  any other \<^verbatim>\<open>OSError\<close> is swallowed when \<open>p\<close> is a directory.
\<close>

definition mkdir_exist_ok :: "fs \<Rightarrow> path \<Rightarrow> (pyerr + unit) \<times> fs" where
  "mkdir_exist_ok f p =
     (case os_mkdir f p of
        (Inr u, f') \<Rightarrow> (Inr u, f')
      | (Inl e, f') \<Rightarrow>
          if e = FileNotFoundError then (Inl e, f')
          else if f' p = Some Dir then (Inr (), f')
          else (Inl e, f'))"

text \<open>
  \<^verbatim>\<open>p.mkdir(parents=True, exist_ok=True)\<close>: on a missing parent, the parent
  is made the same way and \<open>p\<close> is made again, without \<^verbatim>\<open>parents\<close>.
\<close>

function mkdir_parents :: "fs \<Rightarrow> path \<Rightarrow> (pyerr + unit) \<times> fs" where
  "mkdir_parents f p =
     (if fst (os_mkdir f p) = Inl FileNotFoundError then
        (if parent p = p then (Inl FileNotFoundError, snd (os_mkdir f p))
         else (case mkdir_parents (snd (os_mkdir f p)) (parent p) of
                 (Inl e, f') \<Rightarrow> (Inl e, f')
               | (Inr u, f') \<Rightarrow> mkdir_exist_ok f' p))
      else (case os_mkdir f p of
              (Inr u, f') \<Rightarrow> (Inr u, f')
            | (Inl e, f') \<Rightarrow> if f' p = Some Dir then (Inr (), f') else (Inl e, f')))"
  by pat_completeness auto
termination
proof (relation "measure (\<lambda>(f, p). length (snd p))")
  show "wf (measure (\<lambda>(f, p). length (snd p)))" by simp
next
  fix f :: fs and p :: path
  assume "parent p \<noteq> p"
  then have "snd p \<noteq> []"
    by (cases p) (auto simp: parent_def)
  then show "((snd (os_mkdir f p), parent p), (f, p)) \<in> measure (\<lambda>(f, p). length (snd p))"
    by (simp add: parent_def)
qed

declare mkdir_parents.simps [simp del]

section \<open>The host, the world and its trace\<close>

text \<open>
  What a started process does is not the script's: \<open>spawn\<close> is the host's answer
  to an argument vector and a working directory, in a world made of the file
  system and everything else (\<open>outside\<close>: the network, the remote repositories).
  \<open>cpu_count\<close> is \<^verbatim>\<open>None\<close> where \<^verbatim>\<open>multiprocessing.cpu_count()\<close> raises.
\<close>

datatype proc_result = SpawnFailed | Exited int string

record 'e host =
  sys_platform :: string
  sys_prefix :: string
  os_getcwd :: string
  cpu_count :: "int option"
  spawn :: "fs \<Rightarrow> 'e \<Rightarrow> string list \<Rightarrow> path option \<Rightarrow> proc_result \<times> fs \<times> 'e"

datatype event =
    Print string
  | Exec "string list" "path option"
  | Mkdir path

record 'e world =
  files :: fs
  outside :: 'e
  trace :: "event list"

type_synonym ('e, 'a) io = "'e world \<Rightarrow> (pyerr + 'a) \<times> 'e world"

definition bind_io :: "('e, 'a) io \<Rightarrow> ('a \<Rightarrow> ('e, 'b) io) \<Rightarrow> ('e, 'b) io" where
  "bind_io m k w = (case m w of (Inl e, w') \<Rightarrow> (Inl e, w') | (Inr x, w') \<Rightarrow> k x w')"

definition then_io :: "('e, 'a) io \<Rightarrow> ('e, 'b) io \<Rightarrow> ('e, 'b) io" where
  "then_io m k = bind_io m (\<lambda>_. k)"

definition log :: "event \<Rightarrow> 'e world \<Rightarrow> 'e world" where
  "log ev w = w\<lparr>trace := trace w @ [ev]\<rparr>"

text \<open>\<^verbatim>\<open>print(s)\<close>\<close>

definition print :: "string \<Rightarrow> ('e, unit) io" where
  "print s w = (Inr (), log (Print s) w)"

text \<open>\<^verbatim>\<open>p.exists()\<close>\<close>

definition path_exists :: "path \<Rightarrow> ('e, bool) io" where
  "path_exists p w = (Inr (files w p \<noteq> None), w)"

text \<open>\<^verbatim>\<open>p.mkdir(parents=True, exist_ok=True)\<close>\<close>

definition mkdir :: "path \<Rightarrow> ('e, unit) io" where
  "mkdir p w =
     (case mkdir_parents (files w) p of
        (r, f') \<Rightarrow> (r, log (Mkdir p) (w\<lparr>files := f'\<rparr>)))"

text \<open>
  \<^verbatim>\<open>subprocess.check_call(argv, cwd=cwd)\<close>: \<^verbatim>\<open>OSError\<close> when the
  process cannot be started, \<^verbatim>\<open>CalledProcessError(returncode, cmd)\<close> with no
  output when it exits non-zero.
\<close>

definition check_call :: "'e host \<Rightarrow> string list \<Rightarrow> path option \<Rightarrow> ('e, unit) io" where
  "check_call h argv cwd w =
     (case spawn h (files w) (outside w) argv cwd of
        (r, f', o') \<Rightarrow>
          (let w' = log (Exec argv cwd) (w\<lparr>files := f', outside := o'\<rparr>)
           in case r of
                SpawnFailed \<Rightarrow> (Inl OSError, w')
              | Exited rc out \<Rightarrow>
                  if rc = 0 then (Inr (), w')
                  else (Inl (CalledProcessError rc argv None), w')))"

text \<open>
  \<^verbatim>\<open>subprocess.check_output(argv)\<close>: the same, but standard output is
  captured, returned, and attached to the \<^verbatim>\<open>CalledProcessError\<close>.
\<close>

definition check_output :: "'e host \<Rightarrow> string list \<Rightarrow> ('e, string) io" where
  "check_output h argv w =
     (case spawn h (files w) (outside w) argv None of
        (r, f', o') \<Rightarrow>
          (let w' = log (Exec argv None) (w\<lparr>files := f', outside := o'\<rparr>)
           in case r of
                SpawnFailed \<Rightarrow> (Inl OSError, w')
              | Exited rc out \<Rightarrow>
                  if rc = 0 then (Inr out, w')
                  else (Inl (CalledProcessError rc argv (Some out)), w')))"

section \<open>The components and the command object\<close>

text \<open>
  An entry of \<^verbatim>\<open>COMPONENTS\<close>: \<^verbatim>\<open>"cmake_args"\<close> is read with
  \<^verbatim>\<open>.get\<close>, so the key may be absent.
\<close>

record component =
  name :: string
  repo :: string
  cmake_args :: "string list option"

definition COMPONENTS :: "component list" where
  "COMPONENTS =
     [\<lparr>name = ''context-transport-primitives'',
       repo = ''https://github.com/iowarp/context-transport-primitives'',
       cmake_args = Some [''-DHSHM_ENABLE_CUDA=OFF'', ''-DHSHM_ENABLE_ROCM=OFF'',
                          ''-DHSHM_ENABLE_MPI=OFF'', ''-DHSHM_ENABLE_ZMQ=OFF'']\<rparr>,
      \<lparr>name = ''runtime'',
       repo = ''https://github.com/iowarp/runtime'',
       cmake_args = Some []\<rparr>,
      \<lparr>name = ''context-transfer-engine'',
       repo = ''https://github.com/iowarp/context-transfer-engine'',
       cmake_args = Some []\<rparr>,
      \<lparr>name = ''context-assimilation-engine'',
       repo = ''https://github.com/iowarp/context-assimilation-engine'',
       cmake_args = Some []\<rparr>]"

text \<open>
  The attribute \<^verbatim>\<open>self.parallel\<close>: absent, \<^verbatim>\<open>None\<close>, or an integer.
\<close>

datatype pyattr = Missing | NoneVal | IntVal int

text \<open>\<^verbatim>\<open>hasattr(self, "parallel") and self.parallel\<close>\<close>

fun truthy :: "pyattr \<Rightarrow> bool" where
  "truthy Missing = False"
| "truthy NoneVal = False"
| "truthy (IntVal i) = (i \<noteq> 0)"

fun str_attr :: "pyattr \<Rightarrow> string" where
  "str_attr (IntVal i) = str_int i"
| "str_attr _ = ''None''"

record cmake_build =
  build_temp :: string
  build_lib :: string
  parallel :: pyattr
  self_COMPONENTS :: "component list"

text \<open>An instance of \<^verbatim>\<open>CMakeBuild\<close>: the registry is the class attribute.\<close>

definition CMakeBuild :: "string \<Rightarrow> string \<Rightarrow> pyattr \<Rightarrow> cmake_build" where
  "CMakeBuild bt bl par =
     \<lparr>build_temp = bt, build_lib = bl, parallel = par, self_COMPONENTS = COMPONENTS\<rparr>"

section \<open>\<^verbatim>\<open>build_component\<close>\<close>

definition get_cmake_args :: "component \<Rightarrow> string list" where
  "get_cmake_args c = (case cmake_args c of None \<Rightarrow> [] | Some xs \<Rightarrow> xs)"

definition source_dir :: "path \<Rightarrow> component \<Rightarrow> path" where
  "source_dir bt c = joinpath bt (name c)"

definition build_dir :: "path \<Rightarrow> component \<Rightarrow> path" where
  "build_dir bt c = joinpath bt (name c @ ''-build'')"

definition install_prefix :: "'e host \<Rightarrow> path" where
  "install_prefix h = absolute (os_getcwd h) (Path (sys_prefix h))"

definition banner :: "component \<Rightarrow> ('e, unit) io" where
  "banner c =
     then_io (print (CHR 0x0A # replicate 60 CHR ''=''))
    (then_io (print (''Building component: '' @ name c))
             (print (replicate 60 CHR ''='' @ [CHR 0x0A])))"

definition clone_args :: "component \<Rightarrow> path \<Rightarrow> string list" where
  "clone_args c bt = [''git'', ''clone'', repo c, str_path (source_dir bt c)]"

definition clone_repository :: "'e host \<Rightarrow> component \<Rightarrow> path \<Rightarrow> ('e, unit) io" where
  "clone_repository h c bt =
     bind_io (path_exists (source_dir bt c)) (\<lambda>ex.
       if \<not> ex then
         then_io (print (''Cloning '' @ repo c @ ''...''))
                 (check_call h (clone_args c bt) None)
       else print (''Using existing source at '' @ str_path (source_dir bt c)))"

definition create_build_directory :: "component \<Rightarrow> path \<Rightarrow> ('e, unit) io" where
  "create_build_directory c bt = mkdir (build_dir bt c)"

definition cmake_configure_args ::
  "cmake_build \<Rightarrow> 'e host \<Rightarrow> component \<Rightarrow> path \<Rightarrow> string list" where
  "cmake_configure_args self h c bt =
     [''cmake'',
      str_path (source_dir bt c),
      ''-DCMAKE_INSTALL_PREFIX='' @ str_path (install_prefix h),
      ''-DCMAKE_BUILD_TYPE=Release'',
      ''-DBUILD_SHARED_LIBS=ON'',
      ''-DBUILD_TESTING=OFF'']
     @ get_cmake_args c
     @ (if startswith (sys_platform h) ''win''
        then [''-DCMAKE_LIBRARY_OUTPUT_DIRECTORY='' @ build_lib self] else [])"

definition configure_cmake ::
  "cmake_build \<Rightarrow> 'e host \<Rightarrow> component \<Rightarrow> path \<Rightarrow> ('e, unit) io" where
  "configure_cmake self h c bt =
     then_io (print ''Configuring with CMake...'')
    (then_io (print (''Command: '' @ join_str '' '' (cmake_configure_args self h c bt)))
             (check_call h (cmake_configure_args self h c bt) (Some (build_dir bt c))))"

text \<open>
  The \<^verbatim>\<open>--parallel\<close> argument: \<^verbatim>\<open>self.parallel\<close> when it is there and
  truthy, else \<^verbatim>\<open>multiprocessing.cpu_count()\<close>, which may raise.
\<close>

definition build_args :: "cmake_build \<Rightarrow> 'e host \<Rightarrow> pyerr + string list" where
  "build_args self h =
     (if truthy (parallel self) then
        Inr ([''cmake'', ''--build'', ''.'', ''--config'', ''Release'']
             @ [''--parallel'', str_attr (parallel self)])
      else (case cpu_count h of
              None \<Rightarrow> Inl NotImplementedError
            | Some n \<Rightarrow>
                Inr ([''cmake'', ''--build'', ''.'', ''--config'', ''Release'']
                     @ [''--parallel'', str_int n])))"

definition pure_io :: "pyerr + 'a \<Rightarrow> ('e, 'a) io" where
  "pure_io r w = (r, w)"

definition build :: "cmake_build \<Rightarrow> 'e host \<Rightarrow> component \<Rightarrow> path \<Rightarrow> ('e, unit) io" where
  "build self h c bt =
     then_io (print (''Building '' @ name c @ ''...''))
    (bind_io (pure_io (build_args self h)) (\<lambda>args.
       check_call h args (Some (build_dir bt c))))"

definition install_args :: "string list" where
  "install_args = [''cmake'', ''--install'', ''.'']"

definition install :: "'e host \<Rightarrow> component \<Rightarrow> path \<Rightarrow> ('e, unit) io" where
  "install h c bt =
     then_io (print (''Installing '' @ name c @ ''...''))
             (check_call h install_args (Some (build_dir bt c)))"

definition report_success :: "component \<Rightarrow> ('e, unit) io" where
  "report_success c =
     print (CHR 0x0A # name c @ '' built and installed successfully!'' @ [CHR 0x0A])"

definition build_component ::
  "cmake_build \<Rightarrow> 'e host \<Rightarrow> component \<Rightarrow> path \<Rightarrow> ('e, unit) io" where
  "build_component self h c bt =
     then_io (banner c)
    (then_io (clone_repository h c bt)
    (then_io (create_build_directory c bt)
    (then_io (configure_cmake self h c bt)
    (then_io (build self h c bt)
    (then_io (install h c bt)
             (report_success c))))))"

section \<open>\<^verbatim>\<open>run\<close>\<close>

text \<open>The \<^verbatim>\<open>for\<close> loop: an exception leaves it at once.\<close>

fun build_all ::
  "cmake_build \<Rightarrow> 'e host \<Rightarrow> path \<Rightarrow> component list \<Rightarrow> ('e, unit) io" where
  "build_all self h bt [] = pure_io (Inr ())"
| "build_all self h bt (c # cs) =
     then_io (build_component self h c bt) (build_all self h bt cs)"

definition cmake_missing :: pyerr where
  "cmake_missing =
     RuntimeError (''CMake must be installed to build iowarp-core. '' @
                   ''Install with: pip install cmake'')"

definition probe_args :: "string list" where
  "probe_args = [''cmake'', ''--version'']"

definition run :: "cmake_build \<Rightarrow> 'e host \<Rightarrow> ('e, unit) io" where
  "run self h w =
     (case check_output h probe_args w of
        (Inl e, w') \<Rightarrow> if is_OSError e then (Inl cmake_missing, w') else (Inl e, w')
      | (Inr out, w') \<Rightarrow>
          then_io (mkdir (absolute (os_getcwd h) (Path (build_temp self))))
                  (build_all self h (absolute (os_getcwd h) (Path (build_temp self)))
                     (self_COMPONENTS self)) w')"

section \<open>Observations on traces\<close>

text \<open>An event that starts a process; an event that starts the version-control client.\<close>

definition is_exec :: "event \<Rightarrow> bool" where
  "is_exec ev = (case ev of Exec argv cwd \<Rightarrow> True | _ \<Rightarrow> False)"

definition is_git :: "event \<Rightarrow> bool" where
  "is_git ev = (case ev of Exec argv cwd \<Rightarrow> take 1 argv = [''git''] | _ \<Rightarrow> False)"

text \<open>A computation that never starts the version-control client.\<close>

definition quiet :: "('e, 'a) io \<Rightarrow> bool" where
  "quiet m = (\<forall>w. filter is_git (trace (snd (m w))) = filter is_git (trace w))"

text \<open>
  A computation whose exceptions all satisfy \<open>P\<close>; the exceptions a stage of
  \<open>build_component\<close> can raise; an exception other than \<^verbatim>\<open>RuntimeError\<close>.
\<close>

definition raises_only :: "(pyerr \<Rightarrow> bool) \<Rightarrow> ('e, 'a) io \<Rightarrow> bool" where
  "raises_only P m = (\<forall>w e. fst (m w) = Inl e \<longrightarrow> P e)"

definition stage_error :: "cmake_build \<Rightarrow> 'e host \<Rightarrow> component \<Rightarrow> path \<Rightarrow> pyerr \<Rightarrow> bool" where
  "stage_error self h c bt e =
     (case e of
        CalledProcessError rc cmd out \<Rightarrow>
          rc \<noteq> 0 \<and> out = None \<and>
          (cmd = clone_args c bt \<or> cmd = cmake_configure_args self h c bt \<or>
           build_args self h = Inr cmd \<or> cmd = install_args)
      | RuntimeError s \<Rightarrow> False
      | _ \<Rightarrow> True)"

definition not_runtime :: "pyerr \<Rightarrow> bool" where
  "not_runtime e = (case e of RuntimeError s \<Rightarrow> False | _ \<Rightarrow> True)"

section \<open>A scripted host, for evaluation\<close>

text \<open>
  A host whose processes answer by a script of the argument vector alone. A
  successful \<^verbatim>\<open>git clone\<close> creates its target directory; nothing else
  touches the file system. The initial file system holds \<^verbatim>\<open>/\<close> and
  \<^verbatim>\<open>/tmp\<close>, the working directory.
\<close>

definition fs0 :: fs where
  "fs0 = [(''/'', []) \<mapsto> Dir, (''/'', [''tmp'']) \<mapsto> Dir]"

definition scripted_spawn ::
  "(string list \<Rightarrow> proc_result) \<Rightarrow> fs \<Rightarrow> unit \<Rightarrow> string list \<Rightarrow> path option
     \<Rightarrow> proc_result \<times> fs \<times> unit" where
  "scripted_spawn script f e argv cwd =
     (script argv,
      (if take 2 argv = [''git'', ''clone''] \<and> length argv = 4 \<and> script argv = Exited 0 []
       then f(Path (argv ! 3) \<mapsto> Dir) else f),
      e)"

definition scripted_host ::
  "string \<Rightarrow> int option \<Rightarrow> (string list \<Rightarrow> proc_result) \<Rightarrow> unit host" where
  "scripted_host plat n script =
     \<lparr>sys_platform = plat, sys_prefix = ''/usr'', os_getcwd = ''/tmp'',
      cpu_count = n, spawn = scripted_spawn script\<rparr>"

definition world0 :: "unit world" where
  "world0 = \<lparr>files = fs0, outside = (), trace = []\<rparr>"

definition three :: "component list" where
  "three = [\<lparr>name = ''a'', repo = ''r/a'', cmake_args = None\<rparr>,
            \<lparr>name = ''b'', repo = ''r/b'', cmake_args = Some [''-DX=1'']\<rparr>,
            \<lparr>name = ''c'', repo = ''r/c'', cmake_args = Some []\<rparr>]"

definition self3 :: cmake_build where
  "self3 = \<lparr>build_temp = ''bt'', build_lib = ''lib'', parallel = NoneVal,
             self_COMPONENTS = three\<rparr>"

section \<open>Sequencing\<close>

lemmas model_defs = run_def build_component_def banner_def clone_repository_def
  create_build_directory_def configure_cmake_def build_def install_def report_success_def
  cmake_configure_args_def build_args_def install_args_def clone_args_def probe_args_def
  source_dir_def build_dir_def install_prefix_def get_cmake_args_def
  check_call_def check_output_def mkdir_def path_exists_def print_def log_def
  bind_io_def then_io_def pure_io_def
  Path_def posix_root_def str_path_def joinpath_def absolute_def parent_def
  os_mkdir_def mkdir_exist_ok_def mkdir_parents.simps startswith_def str_int_def str_nat.simps
  scripted_host_def scripted_spawn_def world0_def fs0_def cmake_missing_def

lemma bind_io_Inl: "m w = (Inl e, w') \<Longrightarrow> bind_io m k w = (Inl e, w')"
  by (simp add: bind_io_def)

lemma bind_io_Inr: "m w = (Inr x, w') \<Longrightarrow> bind_io m k w = k x w'"
  by (simp add: bind_io_def)

lemma then_io_Inl: "m w = (Inl e, w') \<Longrightarrow> then_io m k w = (Inl e, w')"
  by (simp add: then_io_def bind_io_def)

lemma then_io_Inr: "m w = (Inr x, w') \<Longrightarrow> then_io m k w = k w'"
  by (simp add: then_io_def bind_io_def)

lemma then_io_assoc: "then_io (then_io m k) l = then_io m (then_io k l)"
  by (rule ext) (simp add: then_io_def bind_io_def split: prod.splits sum.splits)

lemma then_io_pure: "then_io (pure_io (Inr x)) k = k"
  by (rule ext) (simp add: then_io_def bind_io_def pure_io_def)

lemma build_all_append:
  "build_all self h bt (xs @ ys) = then_io (build_all self h bt xs) (build_all self h bt ys)"
  by (induction xs) (simp_all add: then_io_pure then_io_assoc)

lemma build_all_stops:
  assumes "build_all self h bt xs w = (Inr (), w1)"
    and "build_component self h c bt w1 = (Inl e, w2)"
  shows "build_all self h bt (xs @ c # ys) w = (Inl e, w2)"
  using assms by (simp add: build_all_append then_io_Inr then_io_Inl)

lemma build_all_snoc:
  "build_all self h bt (xs @ [c]) w =
     (case build_all self h bt xs w of
        (Inl e, w') \<Rightarrow> (Inl e, w')
      | (Inr u, w') \<Rightarrow> build_component self h c bt w')"
  apply (simp add: build_all_append)
  apply (simp add: then_io_def bind_io_def pure_io_def split: prod.splits sum.splits)
  done

lemma build_all_take_ok:
  "fst (build_all self h bt cs w) = Inr () \<Longrightarrow> fst (build_all self h bt (take i cs) w) = Inr ()"
proof -
  assume a: "fst (build_all self h bt cs w) = Inr ()"
  have "cs = take i cs @ drop i cs" by simp
  then have "build_all self h bt cs w = then_io (build_all self h bt (take i cs)) (build_all self h bt (drop i cs)) w"
    by (metis build_all_append)
  with a show ?thesis
    by (auto simp: then_io_def bind_io_def split: prod.splits sum.splits)
qed

lemma build_all_ok_iff:
  "fst (build_all self h bt cs w) = Inr () \<longleftrightarrow>
     (\<forall>i<length cs. fst (build_component self h (cs ! i) bt
                          (snd (build_all self h bt (take i cs) w))) = Inr ())"
proof (induction cs rule: rev_induct)
  case Nil
  then show ?case by (simp add: pure_io_def)
next
  case (snoc c cs)
  show ?case
  proof
    assume ok: "fst (build_all self h bt (cs @ [c]) w) = Inr ()"
    then have okcs: "fst (build_all self h bt cs w) = Inr ()"
      by (auto simp: build_all_snoc split: prod.splits sum.splits)
    then have ih: "\<forall>i<length cs. fst (build_component self h (cs ! i) bt
                          (snd (build_all self h bt (take i cs) w))) = Inr ()"
      using snoc.IH by simp
    from ok okcs have last: "fst (build_component self h c bt (snd (build_all self h bt cs w))) = Inr ()"
      by (auto simp: build_all_snoc split: prod.splits sum.splits)
    show "\<forall>i<length (cs @ [c]). fst (build_component self h ((cs @ [c]) ! i) bt
                          (snd (build_all self h bt (take i (cs @ [c])) w))) = Inr ()"
    proof (intro allI impI)
      fix i assume "i < length (cs @ [c])"
      then consider "i < length cs" | "i = length cs" by fastforce
      then show "fst (build_component self h ((cs @ [c]) ! i) bt
                          (snd (build_all self h bt (take i (cs @ [c])) w))) = Inr ()"
      proof cases
        case 1
        then show ?thesis using ih by (simp add: nth_append)
      next
        case 2
        then show ?thesis using last by simp
      qed
    qed
  next
    assume all: "\<forall>i<length (cs @ [c]). fst (build_component self h ((cs @ [c]) ! i) bt
                          (snd (build_all self h bt (take i (cs @ [c])) w))) = Inr ()"
    have "\<forall>i<length cs. fst (build_component self h (cs ! i) bt
                          (snd (build_all self h bt (take i cs) w))) = Inr ()"
    proof (intro allI impI)
      fix i assume i: "i < length cs"
      then have "i < length (cs @ [c])" by simp
      with all have "fst (build_component self h ((cs @ [c]) ! i) bt
                          (snd (build_all self h bt (take i (cs @ [c])) w))) = Inr ()" by blast
      with i show "fst (build_component self h (cs ! i) bt
                          (snd (build_all self h bt (take i cs) w))) = Inr ()"
        by (simp add: nth_append)
    qed
    then have okcs: "fst (build_all self h bt cs w) = Inr ()" using snoc.IH by simp
    have "length cs < length (cs @ [c])" by simp
    with all have "fst (build_component self h ((cs @ [c]) ! length cs) bt
                          (snd (build_all self h bt (take (length cs) (cs @ [c])) w))) = Inr ()"
      by blast
    then have "fst (build_component self h c bt (snd (build_all self h bt cs w))) = Inr ()"
      by simp
    with okcs show "fst (build_all self h bt (cs @ [c]) w) = Inr ()"
      by (auto simp: build_all_snoc split: prod.splits sum.splits)
  qed
qed

lemma run_loop:
  assumes "check_output h probe_args w = (Inr out, w0)"
    and "mkdir (absolute (os_getcwd h) (Path (build_temp self))) w0 = (Inr (), w1)"
  shows "run self h w =
           build_all self h (absolute (os_getcwd h) (Path (build_temp self))) (self_COMPONENTS self) w1"
  using assms by (simp add: run_def then_io_Inr)


section \<open>What each stage adds to the trace\<close>

lemma trace_log [simp]: "trace (log ev w) = trace w @ [ev]"
  by (simp add: log_def)

lemma files_log [simp]: "files (log ev w) = files w"
  by (simp add: log_def)

lemma outside_log [simp]: "outside (log ev w) = outside w"
  by (simp add: log_def)

lemma snd_bind_io:
  "snd (bind_io m k w) = (case fst (m w) of Inl e \<Rightarrow> snd (m w) | Inr x \<Rightarrow> snd (k x (snd (m w))))"
  by (simp add: bind_io_def split: prod.splits sum.splits)

lemma fst_bind_io:
  "fst (bind_io m k w) = (case fst (m w) of Inl e \<Rightarrow> Inl e | Inr x \<Rightarrow> fst (k x (snd (m w))))"
  by (simp add: bind_io_def split: prod.splits sum.splits)

lemma snd_then_io:
  "snd (then_io m k w) = (case fst (m w) of Inl e \<Rightarrow> snd (m w) | Inr x \<Rightarrow> snd (k (snd (m w))))"
  by (simp add: then_io_def snd_bind_io)

lemma fst_then_io:
  "fst (then_io m k w) = (case fst (m w) of Inl e \<Rightarrow> Inl e | Inr x \<Rightarrow> fst (k (snd (m w))))"
  by (simp add: then_io_def fst_bind_io)

lemma trace_check_call: "trace (snd (check_call h argv cwd w)) = trace w @ [Exec argv cwd]"
  by (simp add: check_call_def Let_def split: prod.splits proc_result.splits)

lemma trace_check_output: "trace (snd (check_output h argv w)) = trace w @ [Exec argv None]"
  by (simp add: check_output_def Let_def split: prod.splits proc_result.splits)

lemma trace_mkdir: "trace (snd (mkdir p w)) = trace w @ [Mkdir p]"
  by (simp add: mkdir_def split: prod.splits)

lemma trace_print: "trace (snd (print s w)) = trace w @ [Print s]"
  by (simp add: print_def)

lemma fst_print: "fst (print s w) = Inr ()"
  by (simp add: print_def)

lemma quiet_print: "quiet (print s)"
  by (simp add: quiet_def trace_print is_git_def)

lemma quiet_mkdir: "quiet (mkdir p)"
  by (simp add: quiet_def trace_mkdir is_git_def)

lemma quiet_pure: "quiet (pure_io r)"
  by (simp add: quiet_def pure_io_def)

lemma quiet_check_call: "take 1 argv \<noteq> [''git''] \<Longrightarrow> quiet (check_call h argv cwd)"
  by (simp add: quiet_def trace_check_call is_git_def)

lemma quiet_bind: "quiet m \<Longrightarrow> (\<And>x. quiet (k x)) \<Longrightarrow> quiet (bind_io m k)"
  unfolding quiet_def by (simp add: snd_bind_io split: sum.splits)

lemma quiet_then: "quiet m \<Longrightarrow> quiet k \<Longrightarrow> quiet (then_io m k)"
  unfolding then_io_def by (rule quiet_bind)

lemma quiet_banner: "quiet (banner c)"
  unfolding banner_def by (intro quiet_then quiet_print)

lemma quiet_create_build_directory: "quiet (create_build_directory c bt)"
  unfolding create_build_directory_def by (rule quiet_mkdir)

lemma quiet_configure_cmake: "quiet (configure_cmake self h c bt)"
  unfolding configure_cmake_def
  by (intro quiet_then quiet_print quiet_check_call) (simp add: cmake_configure_args_def)

lemma build_args_head: "build_args self h = Inr args \<Longrightarrow> take 1 args = [''cmake'']"
  by (auto simp: build_args_def split: if_splits option.splits)


lemma trace_banner:
  "trace (snd (banner c w)) =
     trace w @ [Print (CHR 0x0A # replicate 60 CHR ''=''),
                Print (''Building component: '' @ name c),
                Print (replicate 60 CHR ''='' @ [CHR 0x0A])]"
  by (simp add: banner_def snd_then_io fst_print trace_print)

lemma fst_banner: "fst (banner c w) = Inr ()"
  by (simp add: banner_def fst_then_io fst_print)

lemma files_banner: "files (snd (banner c w)) = files w"
  by (simp add: banner_def snd_then_io fst_print print_def)

lemma outside_banner: "outside (snd (banner c w)) = outside w"
  by (simp add: banner_def snd_then_io fst_print print_def)

lemma clone_repository_exists:
  "files w (source_dir bt c) \<noteq> None \<Longrightarrow>
   clone_repository h c bt w =
     (Inr (), log (Print (''Using existing source at '' @ str_path (source_dir bt c))) w)"
  by (simp add: clone_repository_def bind_io_def path_exists_def print_def)

lemma clone_repository_missing:
  "files w (source_dir bt c) = None \<Longrightarrow>
   clone_repository h c bt w =
     check_call h (clone_args c bt) None (log (Print (''Cloning '' @ repo c @ ''...'')) w)"
  by (simp add: clone_repository_def bind_io_def then_io_def path_exists_def print_def)

lemma trace_clone_repository:
  "trace (snd (clone_repository h c bt w)) =
     trace w @ (if files w (source_dir bt c) = None
                then [Print (''Cloning '' @ repo c @ ''...''), Exec (clone_args c bt) None]
                else [Print (''Using existing source at '' @ str_path (source_dir bt c))])"
  by (simp add: clone_repository_exists clone_repository_missing trace_check_call)

lemma trace_configure_cmake:
  "trace (snd (configure_cmake self h c bt w)) =
     trace w @ [Print ''Configuring with CMake...'',
                Print (''Command: '' @ join_str '' '' (cmake_configure_args self h c bt)),
                Exec (cmake_configure_args self h c bt) (Some (build_dir bt c))]"
  by (simp add: configure_cmake_def snd_then_io fst_print trace_print trace_check_call)

lemma trace_build:
  "trace (snd (build self h c bt w)) =
     trace w @ Print (''Building '' @ name c @ ''...'') #
       (case build_args self h of
          Inl e \<Rightarrow> []
        | Inr args \<Rightarrow> [Exec args (Some (build_dir bt c))])"
  by (simp add: build_def snd_then_io snd_bind_io fst_print trace_print trace_check_call
      pure_io_def split: sum.splits)

lemma trace_install:
  "trace (snd (install h c bt w)) =
     trace w @ [Print (''Installing '' @ name c @ ''...''),
                Exec install_args (Some (build_dir bt c))]"
  by (simp add: install_def snd_then_io fst_print trace_print trace_check_call)

lemma quiet_build: "quiet (build self h c bt)"
  by (auto simp: quiet_def trace_build is_git_def split: sum.splits dest: build_args_head)

lemma quiet_install: "quiet (install h c bt)"
  by (simp add: quiet_def trace_install is_git_def install_args_def)

lemma quiet_report_success: "quiet (report_success c)"
  unfolding report_success_def by (rule quiet_print)

lemma quiet_after_clone:
  "quiet (then_io (create_build_directory c bt)
         (then_io (configure_cmake self h c bt)
         (then_io (build self h c bt)
         (then_io (install h c bt)
                  (report_success c)))))"
  by (intro quiet_then quiet_create_build_directory quiet_configure_cmake quiet_build
      quiet_install quiet_report_success)

lemma git_clone_repository:
  "filter is_git (trace (snd (clone_repository h c bt w))) =
     filter is_git (trace w) @
       (if files w (source_dir bt c) = None then [Exec (clone_args c bt) None] else [])"
  by (simp add: trace_clone_repository is_git_def clone_args_def)

lemma git_build_component:
  "filter is_git (trace (snd (build_component self h c bt w))) =
     filter is_git (trace w) @
       (if files w (source_dir bt c) = None then [Exec (clone_args c bt) None] else [])"
proof -
  let ?rest = "then_io (create_build_directory c bt)
         (then_io (configure_cmake self h c bt)
         (then_io (build self h c bt)
         (then_io (install h c bt)
                  (report_success c))))"
  let ?w1 = "snd (banner c w)"
  have b: "filter is_git (trace ?w1) = filter is_git (trace w)"
    using quiet_banner [of c] unfolding quiet_def by blast
  have c: "filter is_git (trace (snd (clone_repository h c bt ?w1))) =
     filter is_git (trace w) @
       (if files w (source_dir bt c) = None then [Exec (clone_args c bt) None] else [])"
    by (simp add: git_clone_repository b files_banner)
  have r: "filter is_git (trace (snd (?rest w'))) = filter is_git (trace w')" for w'
    using quiet_after_clone [of c bt self h] unfolding quiet_def by blast
  have "snd (build_component self h c bt w) =
          (case fst (clone_repository h c bt ?w1) of
             Inl e \<Rightarrow> snd (clone_repository h c bt ?w1)
           | Inr u \<Rightarrow> snd (?rest (snd (clone_repository h c bt ?w1))))"
    by (simp add: build_component_def snd_then_io fst_banner)
  then show ?thesis
    using c r by (simp split: sum.splits)
qed


section \<open>Facts about \<^verbatim>\<open>mkdir\<close>\<close>

lemma os_mkdir_error:
  "fst (os_mkdir f p) = Inl e \<Longrightarrow>
     (e = FileExistsError \<or> e = FileNotFoundError \<or> e = NotADirectoryError)"
  by (auto simp: os_mkdir_def split: if_splits option.splits node.splits)

lemma os_mkdir_keeps: "f q = Some n \<Longrightarrow> snd (os_mkdir f p) q = Some n"
  by (auto simp: os_mkdir_def split: if_splits option.splits node.splits)

lemma os_mkdir_creates: "fst (os_mkdir f p) = Inr u \<Longrightarrow> snd (os_mkdir f p) p = Some Dir"
  by (auto simp: os_mkdir_def split: if_splits option.splits node.splits)

lemma mkdir_exist_ok_error:
  "fst (mkdir_exist_ok f p) = Inl e \<Longrightarrow>
     (e = FileExistsError \<or> e = FileNotFoundError \<or> e = NotADirectoryError)"
  using os_mkdir_error [of f p]
  by (auto simp: mkdir_exist_ok_def split: prod.splits sum.splits if_splits)

lemma mkdir_exist_ok_keeps: "f q = Some n \<Longrightarrow> snd (mkdir_exist_ok f p) q = Some n"
  using os_mkdir_keeps [of f q n p]
  by (auto simp: mkdir_exist_ok_def split: prod.splits sum.splits if_splits)

lemma mkdir_exist_ok_creates:
  "fst (mkdir_exist_ok f p) = Inr u \<Longrightarrow> snd (mkdir_exist_ok f p) p = Some Dir"
  using os_mkdir_creates [of f p]
  by (auto simp: mkdir_exist_ok_def split: prod.splits sum.splits if_splits)

lemma mkdir_parents_existing: "f p = Some Dir \<Longrightarrow> mkdir_parents f p = (Inr (), f)"
  by (simp add: mkdir_parents.simps [of f p] os_mkdir_def)

lemma mkdir_parents_error:
  "fst (mkdir_parents f p) = Inl e \<Longrightarrow>
     (e = FileExistsError \<or> e = FileNotFoundError \<or> e = NotADirectoryError)"
proof (induction f p rule: mkdir_parents.induct)
  case (1 f p)
  show ?case
  proof (cases "fst (os_mkdir f p) = Inl FileNotFoundError")
    case nf: True
    show ?thesis
    proof (cases "parent p = p")
      case True
      with nf "1.prems" show ?thesis
        by (simp add: mkdir_parents.simps [of f p])
    next
      case False
      show ?thesis
      proof (cases "mkdir_parents (snd (os_mkdir f p)) (parent p)")
        case (Pair r f')
        show ?thesis
        proof (cases r)
          case (Inl e')
          with Pair nf False "1.prems" have "e = e'"
            by (simp add: mkdir_parents.simps [of f p])
          moreover have "fst (mkdir_parents (snd (os_mkdir f p)) (parent p)) = Inl e'"
            using Pair Inl by simp
          ultimately show ?thesis
            using "1.IH" [OF nf False] by simp
        next
          case (Inr u)
          with Pair nf False "1.prems" have "fst (mkdir_exist_ok f' p) = Inl e"
            by (simp add: mkdir_parents.simps [of f p])
          then show ?thesis by (rule mkdir_exist_ok_error)
        qed
      qed
    qed
  next
    case False
    with "1.prems" os_mkdir_error [of f p] show ?thesis
      by (auto simp: mkdir_parents.simps [of f p] split: prod.splits sum.splits if_splits)
  qed
qed

lemma mkdir_parents_keeps: "f q = Some n \<Longrightarrow> snd (mkdir_parents f p) q = Some n"
proof (induction f p rule: mkdir_parents.induct)
  case (1 f p)
  show ?case
  proof (cases "fst (os_mkdir f p) = Inl FileNotFoundError")
    case nf: True
    show ?thesis
    proof (cases "parent p = p")
      case True
      with nf "1.prems" show ?thesis
        by (simp add: mkdir_parents.simps [of f p] os_mkdir_keeps)
    next
      case False
      have k: "snd (os_mkdir f p) q = Some n"
        using "1.prems" by (rule os_mkdir_keeps)
      have ih: "snd (mkdir_parents (snd (os_mkdir f p)) (parent p)) q = Some n"
        using "1.IH" [OF nf False k] .
      show ?thesis
      proof (cases "mkdir_parents (snd (os_mkdir f p)) (parent p)")
        case (Pair r f')
        with ih have f': "f' q = Some n" by simp
        show ?thesis
        proof (cases r)
          case (Inl e')
          with Pair nf False f' show ?thesis
            by (simp add: mkdir_parents.simps [of f p])
        next
          case (Inr u)
          with Pair nf False f' mkdir_exist_ok_keeps [of f' q n p] show ?thesis
            by (simp add: mkdir_parents.simps [of f p])
        qed
      qed
    qed
  next
    case False
    with "1.prems" os_mkdir_keeps [of f q n p] show ?thesis
      by (auto simp: mkdir_parents.simps [of f p] split: prod.splits sum.splits if_splits)
  qed
qed

lemma mkdir_parents_creates:
  "fst (mkdir_parents f p) = Inr u \<Longrightarrow> snd (mkdir_parents f p) p = Some Dir"
proof (cases "fst (os_mkdir f p) = Inl FileNotFoundError")
  case nf: True
  assume ok: "fst (mkdir_parents f p) = Inr u"
  show ?thesis
  proof (cases "parent p = p")
    case True
    with nf ok show ?thesis
      by (simp add: mkdir_parents.simps [of f p])
  next
    case False
    show ?thesis
    proof (cases "mkdir_parents (snd (os_mkdir f p)) (parent p)")
      case (Pair r f')
      show ?thesis
      proof (cases r)
        case (Inl e')
        with Pair nf False ok show ?thesis
          by (simp add: mkdir_parents.simps [of f p])
      next
        case (Inr u')
        with Pair nf False have eq: "mkdir_parents f p = mkdir_exist_ok f' p"
          by (simp add: mkdir_parents.simps [of f p])
        with ok have "fst (mkdir_exist_ok f' p) = Inr u" by simp
        then have "snd (mkdir_exist_ok f' p) p = Some Dir"
          by (rule mkdir_exist_ok_creates)
        with eq show ?thesis by simp
      qed
    qed
  qed
next
  case False
  assume ok: "fst (mkdir_parents f p) = Inr u"
  with False os_mkdir_creates [of f p] show ?thesis
    by (auto simp: mkdir_parents.simps [of f p] split: prod.splits sum.splits if_splits)
qed

lemma fst_mkdir: "fst (mkdir p w) = fst (mkdir_parents (files w) p)"
  by (simp add: mkdir_def split: prod.splits)

lemma files_mkdir: "files (snd (mkdir p w)) = snd (mkdir_parents (files w) p)"
  by (simp add: mkdir_def log_def split: prod.splits)

section \<open>The exceptions of each stage\<close>

lemma raises_print: "raises_only P (print s)"
  by (simp add: raises_only_def print_def)

lemma raises_pure: "(\<And>e. r = Inl e \<Longrightarrow> P e) \<Longrightarrow> raises_only P (pure_io r)"
  by (simp add: raises_only_def pure_io_def)

lemma raises_check_call:
  "P OSError \<Longrightarrow> (\<And>rc. rc \<noteq> 0 \<Longrightarrow> P (CalledProcessError rc argv None)) \<Longrightarrow>
   raises_only P (check_call h argv cwd)"
  by (auto simp: raises_only_def check_call_def Let_def
      split: prod.splits proc_result.splits if_splits)

lemma raises_mkdir:
  assumes "P FileExistsError" and "P FileNotFoundError" and "P NotADirectoryError"
  shows "raises_only P (mkdir p)"
  unfolding raises_only_def
proof (intro allI impI)
  fix w :: "'a world" and e
  assume "fst (mkdir p w) = Inl e"
  then have "fst (mkdir_parents (files w) p) = Inl e"
    by (simp add: fst_mkdir)
  then have "e = FileExistsError \<or> e = FileNotFoundError \<or> e = NotADirectoryError"
    by (rule mkdir_parents_error)
  with assms show "P e" by blast
qed

lemma raises_bind:
  "raises_only P m \<Longrightarrow> (\<And>w x. fst (m w) = Inr x \<Longrightarrow> raises_only P (k x)) \<Longrightarrow>
   raises_only P (bind_io m k)"
  unfolding raises_only_def by (auto simp: fst_bind_io split: sum.splits)

lemma raises_then: "raises_only P m \<Longrightarrow> raises_only P k \<Longrightarrow> raises_only P (then_io m k)"
  unfolding then_io_def by (rule raises_bind)

lemma raises_mono: "raises_only P m \<Longrightarrow> (\<And>e. P e \<Longrightarrow> Q e) \<Longrightarrow> raises_only Q m"
  by (auto simp: raises_only_def)

lemma raises_banner: "raises_only P (banner c)"
  unfolding banner_def by (intro raises_then raises_print)

lemma raises_path_exists: "raises_only P (path_exists p)"
  by (simp add: raises_only_def path_exists_def)

lemma raises_clone_repository:
  "raises_only (stage_error self h c bt) (clone_repository h c bt)"
  unfolding clone_repository_def
proof (rule raises_bind)
  show "raises_only (stage_error self h c bt) (path_exists (source_dir bt c))"
    by (rule raises_path_exists)
next
  fix w :: "'a world" and x :: bool
  have a: "raises_only (stage_error self h c bt)
             (then_io (print (''Cloning '' @ repo c @ ''...''))
                      (check_call h (clone_args c bt) None))"
    by (intro raises_then raises_print raises_check_call) (simp_all add: stage_error_def)
  have b: "raises_only (stage_error self h c bt)
             (print (''Using existing source at '' @ str_path (source_dir bt c)))"
    by (rule raises_print)
  show "raises_only (stage_error self h c bt)
          (if \<not> x
           then then_io (print (''Cloning '' @ repo c @ ''...''))
                        (check_call h (clone_args c bt) None)
           else print (''Using existing source at '' @ str_path (source_dir bt c)))"
    using a b by (cases x) simp_all
qed

lemma raises_create_build_directory:
  "raises_only (stage_error self h c bt) (create_build_directory c bt)"
  unfolding create_build_directory_def
  by (rule raises_mkdir) (simp_all add: stage_error_def)

lemma raises_configure_cmake:
  "raises_only (stage_error self h c bt) (configure_cmake self h c bt)"
  unfolding configure_cmake_def
  by (intro raises_then raises_print raises_check_call) (simp_all add: stage_error_def)

lemma raises_build:
  "raises_only (stage_error self h c bt) (build self h c bt)"
  unfolding build_def
proof (intro raises_then raises_print raises_bind raises_pure)
  fix e assume "build_args self h = Inl e"
  then have "e = NotImplementedError"
    by (auto simp: build_args_def split: if_splits option.splits)
  then show "stage_error self h c bt e" by (simp add: stage_error_def)
next
  fix w :: "'a world" and x
  assume "fst (pure_io (build_args self h) w) = Inr x"
  then have x: "build_args self h = Inr x" by (simp add: pure_io_def)
  show "raises_only (stage_error self h c bt) (check_call h x (Some (build_dir bt c)))"
    by (rule raises_check_call) (simp_all add: stage_error_def x)
qed

lemma raises_install:
  "raises_only (stage_error self h c bt) (install h c bt)"
  unfolding install_def
  by (intro raises_then raises_print raises_check_call) (simp_all add: stage_error_def)

lemma raises_build_component:
  "raises_only (stage_error self h c bt) (build_component self h c bt)"
  unfolding build_component_def report_success_def
  by (intro raises_then raises_banner raises_clone_repository raises_create_build_directory
      raises_configure_cmake raises_build raises_install raises_print)

lemma stage_error_not_runtime: "stage_error self h c bt e \<Longrightarrow> not_runtime e"
  by (auto simp: stage_error_def not_runtime_def split: pyerr.splits)

lemma raises_build_all: "raises_only not_runtime (build_all self h bt cs)"
proof (induction cs)
  case Nil
  show ?case by (simp add: raises_only_def pure_io_def)
next
  case (Cons c cs)
  have "raises_only not_runtime (build_component self h c bt)"
    using raises_build_component by (rule raises_mono) (rule stage_error_not_runtime)
  with Cons show ?case by (simp add: raises_then)
qed

section \<open>The three outcomes of the probe\<close>

lemma run_probe_not_started:
  "spawn h (files w) (outside w) probe_args None = (SpawnFailed, f', o') \<Longrightarrow>
   run self h w =
     (Inl cmake_missing, log (Exec probe_args None) (w\<lparr>files := f', outside := o'\<rparr>))"
  by (simp add: run_def check_output_def)

lemma run_probe_nonzero:
  "spawn h (files w) (outside w) probe_args None = (Exited rc out, f', o') \<Longrightarrow> rc \<noteq> 0 \<Longrightarrow>
   run self h w =
     (Inl (CalledProcessError rc probe_args (Some out)),
      log (Exec probe_args None) (w\<lparr>files := f', outside := o'\<rparr>))"
  by (simp add: run_def check_output_def)

lemma run_probe_zero:
  "spawn h (files w) (outside w) probe_args None = (Exited 0 out, f', o') \<Longrightarrow>
   run self h w =
     then_io (mkdir (absolute (os_getcwd h) (Path (build_temp self))))
             (build_all self h (absolute (os_getcwd h) (Path (build_temp self)))
                (self_COMPONENTS self))
       (log (Exec probe_args None) (w\<lparr>files := f', outside := o'\<rparr>))"
  by (simp add: run_def check_output_def)

lemma run_missing_iff:
  "fst (run self h w) = Inl cmake_missing \<longleftrightarrow>
     fst (spawn h (files w) (outside w) probe_args None) = SpawnFailed"
proof (cases "spawn h (files w) (outside w) probe_args None")
  case (fields r f' o')
  show ?thesis
  proof (cases r)
    case SpawnFailed
    with fields show ?thesis by (simp add: run_probe_not_started)
  next
    case (Exited rc out)
    show ?thesis
    proof (cases "rc = 0")
      case False
      with fields Exited show ?thesis
        by (simp add: run_probe_nonzero cmake_missing_def)
    next
      case True
      let ?bt = "absolute (os_getcwd h) (Path (build_temp self))"
      have "raises_only not_runtime
              (then_io (mkdir ?bt) (build_all self h ?bt (self_COMPONENTS self)))"
        by (intro raises_then raises_mkdir raises_build_all) (simp_all add: not_runtime_def)
      then have nr: "not_runtime e"
        if "fst (then_io (mkdir ?bt) (build_all self h ?bt (self_COMPONENTS self)) w') = Inl e"
        for w' :: "'a world" and e
        using that unfolding raises_only_def by blast
      have eq: "run self h w =
                  then_io (mkdir ?bt) (build_all self h ?bt (self_COMPONENTS self))
                    (log (Exec probe_args None) (w\<lparr>files := f', outside := o'\<rparr>))"
        using fields Exited True by (simp add: run_probe_zero)
      have "fst (run self h w) \<noteq> Inl cmake_missing"
      proof
        assume "fst (run self h w) = Inl cmake_missing"
        then have "not_runtime cmake_missing"
          unfolding eq by (rule nr)
        then show False
          by (simp add: not_runtime_def cmake_missing_def)
      qed
      with fields Exited show ?thesis by simp
    qed
  qed
qed

section \<open>The trace of a whole run\<close>

lemma git_build_all:
  "\<exists>cs'. set cs' \<subseteq> set cs \<and>
     filter is_git (trace (snd (build_all self h bt cs w))) =
       filter is_git (trace w) @ map (\<lambda>c. Exec (clone_args c bt) None) cs'"
proof (induction cs arbitrary: w)
  case Nil
  show ?case by (simp add: pure_io_def)
next
  case (Cons c cs)
  let ?w1 = "snd (build_component self h c bt w)"
  let ?new = "if files w (source_dir bt c) = None then [c] else []"
  have g: "filter is_git (trace ?w1) =
             filter is_git (trace w) @ map (\<lambda>c. Exec (clone_args c bt) None) ?new"
    by (simp add: git_build_component)
  show ?case
  proof (cases "fst (build_component self h c bt w)")
    case (Inl e)
    then have "snd (build_all self h bt (c # cs) w) = ?w1"
      by (simp add: snd_then_io)
    with g have "set ?new \<subseteq> set (c # cs) \<and>
        filter is_git (trace (snd (build_all self h bt (c # cs) w))) =
          filter is_git (trace w) @ map (\<lambda>c. Exec (clone_args c bt) None) ?new"
      by auto
    then show ?thesis by (rule exI)
  next
    case (Inr u)
    then have s: "snd (build_all self h bt (c # cs) w) = snd (build_all self h bt cs ?w1)"
      by (simp add: snd_then_io)
    from Cons.IH [of ?w1] obtain cs' where sub: "set cs' \<subseteq> set cs"
      and eq: "filter is_git (trace (snd (build_all self h bt cs ?w1))) =
                 filter is_git (trace ?w1) @ map (\<lambda>c. Exec (clone_args c bt) None) cs'"
      by blast
    from sub have "set (?new @ cs') \<subseteq> set (c # cs)" by auto
    moreover have "filter is_git (trace (snd (build_all self h bt (c # cs) w))) =
          filter is_git (trace w) @ map (\<lambda>c. Exec (clone_args c bt) None) (?new @ cs')"
      unfolding s eq g by simp
    ultimately have "set (?new @ cs') \<subseteq> set (c # cs) \<and>
        filter is_git (trace (snd (build_all self h bt (c # cs) w))) =
          filter is_git (trace w) @ map (\<lambda>c. Exec (clone_args c bt) None) (?new @ cs')"
      by (rule conjI)
    then show ?thesis by (rule exI)
  qed
qed

lemma not_git_probe: "\<not> is_git (Exec probe_args cwd)"
  by (simp add: is_git_def probe_args_def)

lemma git_run:
  "\<exists>cs. set cs \<subseteq> set (self_COMPONENTS self) \<and>
     filter is_git (trace (snd (run self h w))) =
       filter is_git (trace w) @
       map (\<lambda>c. Exec (clone_args c (absolute (os_getcwd h) (Path (build_temp self)))) None) cs"
proof -
  let ?bt = "absolute (os_getcwd h) (Path (build_temp self))"
  let ?cs = "self_COMPONENTS self"
  have none: "?thesis"
    if "filter is_git (trace (snd (run self h w))) = filter is_git (trace w)"
  proof -
    from that have "set [] \<subseteq> set ?cs \<and>
       filter is_git (trace (snd (run self h w))) =
         filter is_git (trace w) @ map (\<lambda>c. Exec (clone_args c ?bt) None) []"
      by simp
    then show ?thesis by (rule exI)
  qed
  show ?thesis
  proof (cases "spawn h (files w) (outside w) probe_args None")
    case (fields r f' o')
    let ?w0 = "log (Exec probe_args None) (w\<lparr>files := f', outside := o'\<rparr>)"
    have w0: "filter is_git (trace ?w0) = filter is_git (trace w)"
      by (simp add: not_git_probe)
    show ?thesis
    proof (cases r)
      case SpawnFailed
      with fields have "run self h w = (Inl cmake_missing, ?w0)"
        by (simp add: run_probe_not_started)
      with w0 show ?thesis by (intro none) simp
    next
      case (Exited rc out)
      show ?thesis
      proof (cases "rc = 0")
        case False
        with fields Exited have "run self h w =
            (Inl (CalledProcessError rc probe_args (Some out)), ?w0)"
          by (simp add: run_probe_nonzero)
        with w0 show ?thesis by (intro none) simp
      next
        case True
        with fields Exited have eq: "run self h w =
            then_io (mkdir ?bt) (build_all self h ?bt ?cs) ?w0"
          by (simp add: run_probe_zero)
        let ?w1 = "snd (mkdir ?bt ?w0)"
        have w1: "filter is_git (trace ?w1) = filter is_git (trace w)"
          using quiet_mkdir [of ?bt] w0 unfolding quiet_def by metis
        show ?thesis
        proof (cases "fst (mkdir ?bt ?w0)")
          case (Inl e)
          then have "snd (run self h w) = ?w1"
            unfolding eq by (simp add: snd_then_io)
          with w1 show ?thesis by (intro none) simp
        next
          case (Inr u)
          then have s: "snd (run self h w) = snd (build_all self h ?bt ?cs ?w1)"
            unfolding eq by (simp add: snd_then_io)
          from git_build_all [of ?cs self h ?bt ?w1] show ?thesis
            unfolding s w1 .
        qed
      qed
    qed
  qed
qed

lemma trace_grows_mkdir: "\<exists>evs. trace (snd (mkdir p w)) = trace w @ evs"
  by (simp add: trace_mkdir)

lemma trace_grows_build_component:
  "\<exists>evs. trace (snd (build_component self h c bt w)) = trace w @ evs"
proof -
  have step: "\<exists>evs. trace (snd (then_io m k w)) = trace w @ evs"
    if "\<And>w. \<exists>evs. trace (snd (m w)) = trace w @ evs"
      and "\<And>w. \<exists>evs. trace (snd (k w)) = trace w @ evs"
    for m :: "('a, unit) io" and k :: "('a, unit) io" and w
  proof (cases "fst (m w)")
    case (Inl e)
    with that(1) [of w] show ?thesis by (simp add: snd_then_io)
  next
    case (Inr u)
    from that(1) [of w] obtain e1 where e1: "trace (snd (m w)) = trace w @ e1" by blast
    from that(2) [of "snd (m w)"] obtain e2
      where e2: "trace (snd (k (snd (m w)))) = trace (snd (m w)) @ e2" by blast
    from Inr e1 e2 have "trace (snd (then_io m k w)) = trace w @ (e1 @ e2)"
      by (simp add: snd_then_io)
    then show ?thesis by (rule exI)
  qed
  have b: "\<exists>evs. trace (snd (banner c w)) = trace w @ evs" for w :: "'a world"
    by (simp add: trace_banner)
  have cl: "\<exists>evs. trace (snd (clone_repository h c bt w)) = trace w @ evs" for w
    by (simp add: trace_clone_repository)
  have mk: "\<exists>evs. trace (snd (create_build_directory c bt w)) = trace w @ evs" for w :: "'a world"
    by (simp add: create_build_directory_def trace_mkdir)
  have cf: "\<exists>evs. trace (snd (configure_cmake self h c bt w)) = trace w @ evs" for w
    by (simp add: trace_configure_cmake)
  have bd: "\<exists>evs. trace (snd (build self h c bt w)) = trace w @ evs" for w
    by (simp add: trace_build)
  have ins: "\<exists>evs. trace (snd (install h c bt w)) = trace w @ evs" for w
    by (simp add: trace_install)
  have rs: "\<exists>evs. trace (snd (report_success c w)) = trace w @ evs" for w :: "'a world"
    by (simp add: report_success_def trace_print)
  show ?thesis
    unfolding build_component_def
    by (intro step b cl mk cf bd ins rs)
qed

lemma trace_grows_build_all:
  "\<exists>evs. trace (snd (build_all self h bt cs w)) = trace w @ evs"
proof (induction cs arbitrary: w)
  case Nil
  show ?case by (simp add: pure_io_def)
next
  case (Cons c cs)
  from trace_grows_build_component [of self h c bt w] obtain e1
    where e1: "trace (snd (build_component self h c bt w)) = trace w @ e1" by blast
  show ?case
  proof (cases "fst (build_component self h c bt w)")
    case (Inl e)
    with e1 show ?thesis by (simp add: snd_then_io)
  next
    case (Inr u)
    from Cons.IH [of "snd (build_component self h c bt w)"] obtain e2
      where "trace (snd (build_all self h bt cs (snd (build_component self h c bt w)))) =
               trace (snd (build_component self h c bt w)) @ e2" by blast
    with Inr e1 have "trace (snd (build_all self h bt (c # cs) w)) = trace w @ (e1 @ e2)"
      by (simp add: snd_then_io)
    then show ?thesis by (rule exI)
  qed
qed

lemma run_starts_with_probe:
  "\<exists>evs. trace (snd (run self h w)) = trace w @ Exec probe_args None # evs"
proof (cases "spawn h (files w) (outside w) probe_args None")
  case (fields r f' o')
  let ?bt = "absolute (os_getcwd h) (Path (build_temp self))"
  let ?cs = "self_COMPONENTS self"
  let ?w0 = "log (Exec probe_args None) (w\<lparr>files := f', outside := o'\<rparr>)"
  have w0: "trace ?w0 = trace w @ [Exec probe_args None]"
    by simp
  show ?thesis
  proof (cases r)
    case SpawnFailed
    with fields show ?thesis by (simp add: run_probe_not_started)
  next
    case (Exited rc out)
    show ?thesis
    proof (cases "rc = 0")
      case False
      with fields Exited show ?thesis by (simp add: run_probe_nonzero)
    next
      case True
      with fields Exited have eq: "run self h w =
          then_io (mkdir ?bt) (build_all self h ?bt ?cs) ?w0"
        by (simp add: run_probe_zero)
      let ?w1 = "snd (mkdir ?bt ?w0)"
      have w1: "trace ?w1 = trace w @ Exec probe_args None # [Mkdir ?bt]"
        by (simp add: trace_mkdir)
      show ?thesis
      proof (cases "fst (mkdir ?bt ?w0)")
        case (Inl e)
        then have "snd (run self h w) = ?w1"
          unfolding eq by (simp add: snd_then_io)
        with w1 show ?thesis by simp
      next
        case (Inr u)
        then have s: "snd (run self h w) = snd (build_all self h ?bt ?cs ?w1)"
          unfolding eq by (simp add: snd_then_io)
        from trace_grows_build_all [of self h ?bt ?cs ?w1] obtain e2
          where "trace (snd (build_all self h ?bt ?cs ?w1)) = trace ?w1 @ e2" by blast
        with w1 s have "trace (snd (run self h w)) =
            trace w @ Exec probe_args None # (Mkdir ?bt # e2)"
          by simp
        then show ?thesis by (rule exI)
      qed
    qed
  qed
qed

section \<open>A stage whose process exits non-zero\<close>

lemma check_call_nonzero:
  "spawn h (files w) (outside w) argv cwd = (Exited rc out, f', o') \<Longrightarrow> rc \<noteq> 0 \<Longrightarrow>
   check_call h argv cwd w =
     (Inl (CalledProcessError rc argv None),
      log (Exec argv cwd) (w\<lparr>files := f', outside := o'\<rparr>))"
  by (simp add: check_call_def)

lemma clone_repository_fails:
  assumes "files w (source_dir bt c) = None"
    and "spawn h (files w) (outside w) (clone_args c bt) None = (Exited rc out, f', o')"
    and "rc \<noteq> 0"
  shows "fst (clone_repository h c bt w) = Inl (CalledProcessError rc (clone_args c bt) None)"
proof -
  let ?w = "log (Print (''Cloning '' @ repo c @ ''...'')) w"
  have "spawn h (files ?w) (outside ?w) (clone_args c bt) None = (Exited rc out, f', o')"
    using assms(2) by simp
  then have "check_call h (clone_args c bt) None ?w =
     (Inl (CalledProcessError rc (clone_args c bt) None),
      log (Exec (clone_args c bt) None) (?w\<lparr>files := f', outside := o'\<rparr>))"
    using assms(3) by (rule check_call_nonzero)
  then show ?thesis
    using assms(1) by (simp add: clone_repository_missing)
qed

lemma configure_cmake_fails:
  assumes "spawn h (files w) (outside w) (cmake_configure_args self h c bt)
             (Some (build_dir bt c)) = (Exited rc out, f', o')"
    and "rc \<noteq> 0"
  shows "fst (configure_cmake self h c bt w) =
           Inl (CalledProcessError rc (cmake_configure_args self h c bt) None)"
proof -
  let ?w = "log (Print (''Command: '' @ join_str '' '' (cmake_configure_args self h c bt)))
              (log (Print ''Configuring with CMake...'') w)"
  have "spawn h (files ?w) (outside ?w) (cmake_configure_args self h c bt)
             (Some (build_dir bt c)) = (Exited rc out, f', o')"
    using assms(1) by simp
  then have "check_call h (cmake_configure_args self h c bt) (Some (build_dir bt c)) ?w =
     (Inl (CalledProcessError rc (cmake_configure_args self h c bt) None),
      log (Exec (cmake_configure_args self h c bt) (Some (build_dir bt c)))
        (?w\<lparr>files := f', outside := o'\<rparr>))"
    using assms(2) by (rule check_call_nonzero)
  then show ?thesis
    by (simp add: configure_cmake_def then_io_def bind_io_def print_def)
qed

lemma build_fails:
  assumes "build_args self h = Inr args"
    and "spawn h (files w) (outside w) args (Some (build_dir bt c)) = (Exited rc out, f', o')"
    and "rc \<noteq> 0"
  shows "fst (build self h c bt w) = Inl (CalledProcessError rc args None)"
proof -
  let ?w = "log (Print (''Building '' @ name c @ ''...'')) w"
  have "spawn h (files ?w) (outside ?w) args (Some (build_dir bt c)) = (Exited rc out, f', o')"
    using assms(2) by simp
  then have "check_call h args (Some (build_dir bt c)) ?w =
     (Inl (CalledProcessError rc args None),
      log (Exec args (Some (build_dir bt c))) (?w\<lparr>files := f', outside := o'\<rparr>))"
    using assms(3) by (rule check_call_nonzero)
  then show ?thesis
    using assms(1) by (simp add: build_def then_io_def bind_io_def print_def pure_io_def)
qed

lemma install_fails:
  assumes "spawn h (files w) (outside w) install_args (Some (build_dir bt c)) =
             (Exited rc out, f', o')"
    and "rc \<noteq> 0"
  shows "fst (install h c bt w) = Inl (CalledProcessError rc install_args None)"
proof -
  let ?w = "log (Print (''Installing '' @ name c @ ''...'')) w"
  have "spawn h (files ?w) (outside ?w) install_args (Some (build_dir bt c)) =
          (Exited rc out, f', o')"
    using assms(1) by simp
  then have "check_call h install_args (Some (build_dir bt c)) ?w =
     (Inl (CalledProcessError rc install_args None),
      log (Exec install_args (Some (build_dir bt c))) (?w\<lparr>files := f', outside := o'\<rparr>))"
    using assms(2) by (rule check_call_nonzero)
  then show ?thesis
    by (simp add: install_def then_io_def bind_io_def print_def)
qed

lemma fails_after:
  "m w = (Inr (), w') \<Longrightarrow> fst (k w') = Inl e \<Longrightarrow> fst (then_io (then_io m k) l w) = Inl e"
  by (simp add: fst_then_io)

lemma build_component_clone_fails:
  assumes "files w (source_dir bt c) = None"
    and "spawn h (files w) (outside w) (clone_args c bt) None = (Exited rc out, f', o')"
    and "rc \<noteq> 0"
  shows "fst (build_component self h c bt w) =
           Inl (CalledProcessError rc (clone_args c bt) None)"
proof -
  let ?w1 = "snd (banner c w)"
  have b: "banner c w = (Inr (), ?w1)"
    using fst_banner [of c w] by (simp add: prod_eq_iff)
  have "fst (clone_repository h c bt ?w1) = Inl (CalledProcessError rc (clone_args c bt) None)"
    using assms by (intro clone_repository_fails) (simp_all add: files_banner outside_banner)
  with b have "fst (then_io (then_io (banner c) (clone_repository h c bt))
                 (then_io (create_build_directory c bt)
                 (then_io (configure_cmake self h c bt)
                 (then_io (build self h c bt)
                 (then_io (install h c bt) (report_success c))))) w) =
               Inl (CalledProcessError rc (clone_args c bt) None)"
    by (rule fails_after)
  then show ?thesis
    by (simp add: build_component_def then_io_assoc)
qed

lemma build_component_configure_fails:
  assumes "then_io (banner c) (then_io (clone_repository h c bt)
             (create_build_directory c bt)) w = (Inr (), w1)"
    and "spawn h (files w1) (outside w1) (cmake_configure_args self h c bt)
             (Some (build_dir bt c)) = (Exited rc out, f', o')"
    and "rc \<noteq> 0"
  shows "fst (build_component self h c bt w) =
           Inl (CalledProcessError rc (cmake_configure_args self h c bt) None)"
proof -
  have "fst (configure_cmake self h c bt w1) =
          Inl (CalledProcessError rc (cmake_configure_args self h c bt) None)"
    using assms(2,3) by (rule configure_cmake_fails)
  with assms(1) have "fst (then_io
       (then_io (then_io (banner c) (then_io (clone_repository h c bt)
             (create_build_directory c bt))) (configure_cmake self h c bt))
       (then_io (build self h c bt) (then_io (install h c bt) (report_success c))) w) =
     Inl (CalledProcessError rc (cmake_configure_args self h c bt) None)"
    by (rule fails_after)
  then show ?thesis
    by (simp add: build_component_def then_io_assoc)
qed

lemma build_component_build_fails:
  assumes "then_io (banner c) (then_io (clone_repository h c bt)
             (then_io (create_build_directory c bt) (configure_cmake self h c bt))) w
           = (Inr (), w2)"
    and "build_args self h = Inr args"
    and "spawn h (files w2) (outside w2) args (Some (build_dir bt c)) = (Exited rc out, f', o')"
    and "rc \<noteq> 0"
  shows "fst (build_component self h c bt w) = Inl (CalledProcessError rc args None)"
proof -
  have "fst (build self h c bt w2) = Inl (CalledProcessError rc args None)"
    using assms(2,3,4) by (rule build_fails)
  with assms(1) have "fst (then_io
       (then_io (then_io (banner c) (then_io (clone_repository h c bt)
             (then_io (create_build_directory c bt) (configure_cmake self h c bt))))
          (build self h c bt))
       (then_io (install h c bt) (report_success c)) w) =
     Inl (CalledProcessError rc args None)"
    by (rule fails_after)
  then show ?thesis
    by (simp add: build_component_def then_io_assoc)
qed

lemma build_component_install_fails:
  assumes "then_io (banner c) (then_io (clone_repository h c bt)
             (then_io (create_build_directory c bt)
             (then_io (configure_cmake self h c bt) (build self h c bt)))) w
           = (Inr (), w3)"
    and "spawn h (files w3) (outside w3) install_args (Some (build_dir bt c)) =
           (Exited rc out, f', o')"
    and "rc \<noteq> 0"
  shows "fst (build_component self h c bt w) = Inl (CalledProcessError rc install_args None)"
proof -
  have "fst (install h c bt w3) = Inl (CalledProcessError rc install_args None)"
    using assms(2,3) by (rule install_fails)
  with assms(1) have "fst (then_io
       (then_io (then_io (banner c) (then_io (clone_repository h c bt)
             (then_io (create_build_directory c bt)
             (then_io (configure_cmake self h c bt) (build self h c bt)))))
          (install h c bt))
       (report_success c) w) =
     Inl (CalledProcessError rc install_args None)"
    by (rule fails_after)
  then show ?thesis
    by (simp add: build_component_def then_io_assoc)
qed

section \<open>The install prefix and the trace of a successful build\<close>

lemma posix_root_cases: "posix_root s = [] \<or> posix_root s = ''/'' \<or> posix_root s = ''//''"
  by (simp add: posix_root_def)

lemma install_prefix_root:
  assumes "fst (Path (os_getcwd h)) \<noteq> []"
  shows "fst (install_prefix h) = ''/'' \<or> fst (install_prefix h) = ''//''"
proof (cases "fst (Path (sys_prefix h)) = []")
  case True
  then have "fst (install_prefix h) = posix_root (os_getcwd h)"
    by (simp add: install_prefix_def absolute_def Path_def)
  moreover have "posix_root (os_getcwd h) \<noteq> []"
    using assms by (simp add: Path_def)
  ultimately show ?thesis
    using posix_root_cases [of "os_getcwd h"] by simp
next
  case False
  then have "fst (install_prefix h) = posix_root (sys_prefix h)"
    by (simp add: install_prefix_def absolute_def Path_def)
  moreover have "posix_root (sys_prefix h) \<noteq> []"
    using False by (simp add: Path_def)
  ultimately show ?thesis
    using posix_root_cases [of "sys_prefix h"] by simp
qed

lemma install_prefix_absolute:
  assumes "fst (Path (os_getcwd h)) \<noteq> []"
  shows "fst (install_prefix h) \<noteq> [] \<and> take 1 (str_path (install_prefix h)) = ''/''"
  using install_prefix_root [OF assms] by (auto simp: str_path_def)

lemma then_io_ok:
  fixes m :: "('e, unit) io"
  assumes "fst (then_io m k w) = Inr u"
  shows "fst (m w) = Inr () \<and> fst (k (snd (m w))) = Inr u
         \<and> snd (then_io m k w) = snd (k (snd (m w)))"
proof (cases "fst (m w)")
  case (Inl e)
  with assms show ?thesis by (simp add: fst_then_io)
next
  case (Inr x)
  with assms show ?thesis by (simp add: fst_then_io snd_then_io)
qed

lemma build_component_ok_execs:
  assumes "fst (build_component self h c bt w) = Inr ()"
  shows "\<exists>pre mid post. trace (snd (build_component self h c bt w)) =
           pre @ Exec (cmake_configure_args self h c bt) (Some (build_dir bt c)) # mid
               @ Exec install_args (Some (build_dir bt c)) # post"
proof -
  let ?r5 = "then_io (install h c bt) (report_success c)"
  let ?r4 = "then_io (build self h c bt) ?r5"
  let ?r3 = "then_io (configure_cmake self h c bt) ?r4"
  let ?r2 = "then_io (create_build_directory c bt) ?r3"
  let ?r1 = "then_io (clone_repository h c bt) ?r2"
  let ?w1 = "snd (banner c w)"
  let ?w2 = "snd (clone_repository h c bt ?w1)"
  let ?w3 = "snd (create_build_directory c bt ?w2)"
  let ?w4 = "snd (configure_cmake self h c bt ?w3)"
  let ?w5 = "snd (build self h c bt ?w4)"
  let ?w6 = "snd (install h c bt ?w5)"
  have bc: "build_component self h c bt = then_io (banner c) ?r1"
    by (simp add: build_component_def)
  from assms have s0: "fst (then_io (banner c) ?r1 w) = Inr ()"
    by (simp add: bc)
  have s1: "fst (?r1 ?w1) = Inr ()"
    using then_io_ok [OF s0] by (elim conjE)
  have e1: "snd (then_io (banner c) ?r1 w) = snd (?r1 ?w1)"
    using then_io_ok [OF s0] by (elim conjE)
  have s2: "fst (?r2 ?w2) = Inr ()"
    using then_io_ok [OF s1] by (elim conjE)
  have e2: "snd (?r1 ?w1) = snd (?r2 ?w2)"
    using then_io_ok [OF s1] by (elim conjE)
  have s3: "fst (?r3 ?w3) = Inr ()"
    using then_io_ok [OF s2] by (elim conjE)
  have e3: "snd (?r2 ?w2) = snd (?r3 ?w3)"
    using then_io_ok [OF s2] by (elim conjE)
  have s4: "fst (?r4 ?w4) = Inr ()"
    using then_io_ok [OF s3] by (elim conjE)
  have e4: "snd (?r3 ?w3) = snd (?r4 ?w4)"
    using then_io_ok [OF s3] by (elim conjE)
  have s5: "fst (?r5 ?w5) = Inr ()"
    using then_io_ok [OF s4] by (elim conjE)
  have e5: "snd (?r4 ?w4) = snd (?r5 ?w5)"
    using then_io_ok [OF s4] by (elim conjE)
  have e6: "snd (?r5 ?w5) = snd (report_success c ?w6)"
    using then_io_ok [OF s5] by (elim conjE)
  have fin: "snd (build_component self h c bt w) = snd (report_success c ?w6)"
    unfolding bc using e1 e2 e3 e4 e5 e6 by (metis (no_types))
  define evs5 where "evs5 = Print (''Building '' @ name c @ ''...'') #
       (case build_args self h of
          Inl e \<Rightarrow> []
        | Inr args \<Rightarrow> [Exec args (Some (build_dir bt c))])"
  have t5: "trace ?w5 = trace ?w4 @ evs5"
    unfolding evs5_def by (rule trace_build)
  define s where "s = CHR 0x0A # name c @ '' built and installed successfully!'' @ [CHR 0x0A]"
  have t7: "trace (snd (report_success c ?w6)) = trace ?w6 @ [Print s]"
    unfolding s_def report_success_def by (rule trace_print)
  have t4: "trace ?w4 = (trace ?w3 @ [Print ''Configuring with CMake...'',
                Print (''Command: '' @ join_str '' '' (cmake_configure_args self h c bt))])
              @ [Exec (cmake_configure_args self h c bt) (Some (build_dir bt c))]"
    by (simp add: trace_configure_cmake)
  have t6: "trace ?w6 = trace ?w5 @ [Print (''Installing '' @ name c @ ''...''),
                Exec install_args (Some (build_dir bt c))]"
    by (simp add: trace_install)
  have eq: "trace (snd (build_component self h c bt w)) =
          (trace ?w3 @ [Print ''Configuring with CMake...'',
                Print (''Command: '' @ join_str '' '' (cmake_configure_args self h c bt))])
          @ Exec (cmake_configure_args self h c bt) (Some (build_dir bt c))
          # (evs5 @ [Print (''Installing '' @ name c @ ''...'')])
          @ Exec install_args (Some (build_dir bt c)) # [Print s]"
    unfolding fin t7 t6 t5 t4 by simp
  show ?thesis
    apply (rule exI [of _ "trace ?w3 @ [Print ''Configuring with CMake...'',
                Print (''Command: '' @ join_str '' '' (cmake_configure_args self h c bt))]"])
    apply (rule exI [of _ "evs5 @ [Print (''Installing '' @ name c @ ''...'')]"])
    apply (rule exI [of _ "[Print s]"])
    apply (rule eq)
    done
qed

section \<open>Creating a missing directory\<close>

lemma mkdir_parents_new:
  "f p = None \<Longrightarrow> f (parent p) = Some Dir \<Longrightarrow> mkdir_parents f p = (Inr (), f(p \<mapsto> Dir))"
  by (simp add: mkdir_parents.simps [of f p] os_mkdir_def)

lemma mkdir_parents_new_parent:
  assumes "f p = None" and "f (parent p) = None" and "parent p \<noteq> p"
    and "f (parent (parent p)) = Some Dir"
  shows "mkdir_parents f p = (Inr (), f(parent p \<mapsto> Dir, p \<mapsto> Dir))"
proof -
  have o: "os_mkdir f p = (Inl FileNotFoundError, f)"
    using assms(1,2) by (simp add: os_mkdir_def)
  have r: "mkdir_parents f (parent p) = (Inr (), f(parent p \<mapsto> Dir))"
    using assms(2,4) by (rule mkdir_parents_new)
  have e: "mkdir_exist_ok (f(parent p \<mapsto> Dir)) p = (Inr (), f(parent p \<mapsto> Dir, p \<mapsto> Dir))"
    using assms(1,3) by (simp add: mkdir_exist_ok_def os_mkdir_def)
  show ?thesis
    using assms(3) by (simp add: mkdir_parents.simps [of f p] o r e)
qed

section \<open>C1: fail-fast execution\<close>

text \<open>
  C1. The loop of \<^verbatim>\<open>run\<close> takes the registry in order. When the components
  before index \<open>i\<close> have been built and \<open>build_component\<close> fails on component
  \<open>i\<close>, the run ends with that error in the very world that failure left: its
  trace holds nothing of a later component. The run succeeds exactly when every
  component's \<open>build_component\<close> succeeds, each in the world its predecessors left.
\<close>

theorem run_fail_fast:
  assumes "check_output h probe_args w = (Inr out, w0)"
    and "mkdir bt w0 = (Inr (), w1)"
    and "bt = absolute (os_getcwd h) (Path (build_temp self))"
    and "cs = self_COMPONENTS self"
  shows "(\<forall>i<length cs. \<forall>e w2 w3.
            build_all self h bt (take i cs) w1 = (Inr (), w2) \<longrightarrow>
            build_component self h (cs ! i) bt w2 = (Inl e, w3) \<longrightarrow>
            run self h w = (Inl e, w3))
       \<and> (fst (run self h w) = Inr () \<longleftrightarrow>
            (\<forall>i<length cs. fst (build_component self h (cs ! i) bt
                                 (snd (build_all self h bt (take i cs) w1))) = Inr ()))"
proof
  have loop: "run self h w = build_all self h bt cs w1"
    using assms run_loop by metis
  show "\<forall>i<length cs. \<forall>e w2 w3.
            build_all self h bt (take i cs) w1 = (Inr (), w2) \<longrightarrow>
            build_component self h (cs ! i) bt w2 = (Inl e, w3) \<longrightarrow>
            run self h w = (Inl e, w3)"
  proof (intro allI impI)
    fix i e w2 w3
    assume i: "i < length cs"
      and pre: "build_all self h bt (take i cs) w1 = (Inr (), w2)"
      and bad: "build_component self h (cs ! i) bt w2 = (Inl e, w3)"
    from i have "cs = take i cs @ cs ! i # drop (Suc i) cs"
      by (simp add: id_take_nth_drop)
    then have "build_all self h bt cs w1 =
                 build_all self h bt (take i cs @ cs ! i # drop (Suc i) cs) w1"
      by simp
    also have "\<dots> = (Inl e, w3)"
      using pre bad by (rule build_all_stops)
    finally show "run self h w = (Inl e, w3)"
      using loop by simp
  qed
  show "fst (run self h w) = Inr () \<longleftrightarrow>
            (\<forall>i<length cs. fst (build_component self h (cs ! i) bt
                                 (snd (build_all self h bt (take i cs) w1))) = Inr ())"
    unfolding loop by (rule build_all_ok_iff)
qed

theorem run_fail_fast_witness:
  "fst (run self3 (scripted_host ''linux'' (Some 8)
         (\<lambda>argv. if take 2 argv = [''cmake'', ''/tmp/bt/b''] then Exited 1 [] else Exited 0 []))
         world0)
     = Inl (CalledProcessError 1
         [''cmake'', ''/tmp/bt/b'', ''-DCMAKE_INSTALL_PREFIX=/usr'',
          ''-DCMAKE_BUILD_TYPE=Release'', ''-DBUILD_SHARED_LIBS=ON'',
          ''-DBUILD_TESTING=OFF'', ''-DX=1''] None)
   \<and> filter is_exec (trace (snd (run self3 (scripted_host ''linux'' (Some 8)
         (\<lambda>argv. if take 2 argv = [''cmake'', ''/tmp/bt/b''] then Exited 1 [] else Exited 0 []))
         world0)))
     = [Exec [''cmake'', ''--version''] None,
        Exec [''git'', ''clone'', ''r/a'', ''/tmp/bt/a''] None,
        Exec [''cmake'', ''/tmp/bt/a'', ''-DCMAKE_INSTALL_PREFIX=/usr'',
              ''-DCMAKE_BUILD_TYPE=Release'', ''-DBUILD_SHARED_LIBS=ON'',
              ''-DBUILD_TESTING=OFF''] (Some (''/'', [''tmp'', ''bt'', ''a-build''])),
        Exec [''cmake'', ''--build'', ''.'', ''--config'', ''Release'', ''--parallel'', ''8'']
             (Some (''/'', [''tmp'', ''bt'', ''a-build''])),
        Exec [''cmake'', ''--install'', ''.''] (Some (''/'', [''tmp'', ''bt'', ''a-build''])),
        Exec [''git'', ''clone'', ''r/b'', ''/tmp/bt/b''] None,
        Exec [''cmake'', ''/tmp/bt/b'', ''-DCMAKE_INSTALL_PREFIX=/usr'',
              ''-DCMAKE_BUILD_TYPE=Release'', ''-DBUILD_SHARED_LIBS=ON'',
              ''-DBUILD_TESTING=OFF'', ''-DX=1''] (Some (''/'', [''tmp'', ''bt'', ''b-build'']))]"
proof -
  define H where "H = scripted_host ''linux'' (Some 8)
         (\<lambda>argv. if take 2 argv = [''cmake'', ''/tmp/bt/b''] then Exited 1 [] else Exited 0 [])"
  define BT where "BT = absolute (os_getcwd H) (Path (build_temp self3))"
  define W0 where "W0 = snd (check_output H probe_args world0)"
  define W1 where "W1 = snd (mkdir BT W0)"
  define W2 where "W2 = snd (build_all self3 H BT (take 1 three) W1)"
  define E where "E = CalledProcessError 1
         [''cmake'', ''/tmp/bt/b'', ''-DCMAKE_INSTALL_PREFIX=/usr'',
          ''-DCMAKE_BUILD_TYPE=Release'', ''-DBUILD_SHARED_LIBS=ON'',
          ''-DBUILD_TESTING=OFF'', ''-DX=1''] None"
  define W3 where "W3 = snd (build_component self3 H (three ! 1) BT W2)"
  have w0: "W0 = \<lparr>files = fs0, outside = (), trace = [Exec [''cmake'', ''--version''] None]\<rparr>"
    unfolding W0_def H_def by (simp add: model_defs)
  have h1: "check_output H probe_args world0 = (Inr [], W0)"
    unfolding w0 unfolding H_def by (simp add: model_defs)
  have bt: "BT = (''/'', [''tmp'', ''bt''])"
    unfolding BT_def H_def by (simp add: model_defs self3_def)
  have w1: "W1 = \<lparr>files = fs0((''/'', [''tmp'', ''bt'']) \<mapsto> Dir), outside = (),
                   trace = [Exec [''cmake'', ''--version''] None, Mkdir (''/'', [''tmp'', ''bt''])]\<rparr>"
    unfolding W1_def w0 bt by (simp add: model_defs)
  have h2: "mkdir BT W0 = (Inr (), W1)"
    unfolding w1 unfolding w0 bt by (simp add: model_defs)
  have h3: "BT = absolute (os_getcwd H) (Path (build_temp self3))"
    by (simp add: BT_def)
  have h4: "three = self_COMPONENTS self3"
    by (simp add: self3_def)
  have h5: "build_all self3 H BT (take 1 three) W1 = (Inr (), W2)"
    unfolding W2_def unfolding w1 bt H_def
    by (simp add: model_defs self3_def three_def prod_eq_iff)
  have h6: "build_component self3 H (three ! 1) BT W2 = (Inl E, W3)"
    unfolding W3_def W2_def E_def unfolding w1 bt H_def
    by (simp add: model_defs self3_def three_def prod_eq_iff)
  have len: "1 < length three" by (simp add: three_def)
  from run_fail_fast [OF h1 h2 h3 h4] len h5 h6
  have r: "run self3 H world0 = (Inl E, W3)" by blast
  have tr: "filter is_exec (trace W3) = [Exec [''cmake'', ''--version''] None,
        Exec [''git'', ''clone'', ''r/a'', ''/tmp/bt/a''] None,
        Exec [''cmake'', ''/tmp/bt/a'', ''-DCMAKE_INSTALL_PREFIX=/usr'',
              ''-DCMAKE_BUILD_TYPE=Release'', ''-DBUILD_SHARED_LIBS=ON'',
              ''-DBUILD_TESTING=OFF''] (Some (''/'', [''tmp'', ''bt'', ''a-build''])),
        Exec [''cmake'', ''--build'', ''.'', ''--config'', ''Release'', ''--parallel'', ''8'']
             (Some (''/'', [''tmp'', ''bt'', ''a-build''])),
        Exec [''cmake'', ''--install'', ''.''] (Some (''/'', [''tmp'', ''bt'', ''a-build''])),
        Exec [''git'', ''clone'', ''r/b'', ''/tmp/bt/b''] None,
        Exec [''cmake'', ''/tmp/bt/b'', ''-DCMAKE_INSTALL_PREFIX=/usr'',
              ''-DCMAKE_BUILD_TYPE=Release'', ''-DBUILD_SHARED_LIBS=ON'',
              ''-DBUILD_TESTING=OFF'', ''-DX=1''] (Some (''/'', [''tmp'', ''bt'', ''b-build'']))]"
    unfolding W3_def W2_def unfolding w1 bt H_def
    by (simp add: model_defs self3_def three_def is_exec_def)
  show ?thesis
    using r tr unfolding H_def E_def by simp
qed

section \<open>C2: acquisition is idempotent\<close>

text \<open>
  C2. When the source directory exists, the clone step returns at once, having
  only printed a line: the file system is untouched and no process is started.
  When it does not exist, the step is the \<^verbatim>\<open>git clone\<close> call. Over the
  whole of \<open>build_component\<close>, the version-control client is started exactly
  once when the source directory is missing and never when it exists.
\<close>

theorem acquisition_idempotent:
  "(files w (source_dir bt c) \<noteq> None \<longrightarrow>
      clone_repository h c bt w =
        (Inr (), log (Print (''Using existing source at '' @ str_path (source_dir bt c))) w))
   \<and> (files w (source_dir bt c) = None \<longrightarrow>
      clone_repository h c bt w =
        check_call h (clone_args c bt) None (log (Print (''Cloning '' @ repo c @ ''...'')) w))
   \<and> filter is_git (trace (snd (build_component self h c bt w))) =
       filter is_git (trace w) @
         (if files w (source_dir bt c) = None then [Exec (clone_args c bt) None] else [])"
  using clone_repository_exists [of w bt c h] clone_repository_missing [of w bt c h]
    git_build_component [of self h c bt w]
  by simp

theorem acquisition_idempotent_witness:
  "filter is_git (trace (snd (build_component self3
       (scripted_host ''linux'' (Some 8) (\<lambda>argv. Exited 0 [])) (three ! 0)
       (''/'', [''tmp'', ''bt''])
       (world0\<lparr>files := fs0((''/'', [''tmp'', ''bt'']) \<mapsto> Dir,
                              (''/'', [''tmp'', ''bt'', ''a'']) \<mapsto> Dir)\<rparr>)))) = []
   \<and> filter is_git (trace (snd (build_component self3
       (scripted_host ''linux'' (Some 8) (\<lambda>argv. Exited 0 [])) (three ! 0)
       (''/'', [''tmp'', ''bt'']) world0)))
     = [Exec [''git'', ''clone'', ''r/a'', ''/tmp/bt/a''] None]"
  using
    acquisition_idempotent [of
      "world0\<lparr>files := fs0((''/'', [''tmp'', ''bt'']) \<mapsto> Dir,
                              (''/'', [''tmp'', ''bt'', ''a'']) \<mapsto> Dir)\<rparr>"
      "(''/'', [''tmp'', ''bt''])" "three ! 0"
      "scripted_host ''linux'' (Some 8) (\<lambda>argv. Exited 0 [])" self3]
    acquisition_idempotent [of world0 "(''/'', [''tmp'', ''bt''])" "three ! 0"
      "scripted_host ''linux'' (Some 8) (\<lambda>argv. Exited 0 [])" self3]
  by (simp add: three_def source_dir_def joinpath_def Path_def posix_root_def
      clone_args_def str_path_def world0_def fs0_def)

section \<open>C4: what the clone asks for\<close>

text \<open>
  C4. When the source directory does not exist, the clone step starts
  exactly one process, \<^verbatim>\<open>git clone <repo> <source_dir>\<close>, in the current
  directory: a plain clone of the full history, with no depth or filter option
  and with no option that recurses into submodules.
\<close>

theorem clone_is_plain:
  "files w (source_dir bt c) = None \<longrightarrow>
     trace (snd (clone_repository h c bt w)) =
       trace w @ [Print (''Cloning '' @ repo c @ ''...''),
                  Exec [''git'', ''clone'', repo c, str_path (joinpath bt (name c))] None]"
  by (simp add: trace_clone_repository clone_args_def source_dir_def)

theorem clone_is_plain_witness:
  "trace (snd (clone_repository (scripted_host ''linux'' (Some 8) (\<lambda>argv. Exited 0 []))
       (three ! 0) (''/'', [''tmp'', ''bt'']) world0)) =
     [Print ''Cloning r/a...'', Exec [''git'', ''clone'', ''r/a'', ''/tmp/bt/a''] None]"
  using clone_is_plain [of world0 "(''/'', [''tmp'', ''bt''])" "three ! 0"
      "scripted_host ''linux'' (Some 8) (\<lambda>argv. Exited 0 [])"]
  by (simp add: three_def source_dir_def joinpath_def Path_def posix_root_def
      str_path_def world0_def fs0_def)

text \<open>
  For the first component of \<^verbatim>\<open>COMPONENTS\<close> the clone command has four
  words, and neither \<^verbatim>\<open>--recursive\<close> nor \<^verbatim>\<open>--recurse-submodules\<close>
  is among them: the clone is not recursive.
\<close>

theorem clone_not_recursive_counterexample:
  "clone_args (COMPONENTS ! 0) (''/'', [''tmp'', ''bt'']) =
     [''git'', ''clone'', ''https://github.com/iowarp/context-transport-primitives'',
      ''/tmp/bt/context-transport-primitives'']
   \<and> ''--recursive'' \<notin> set (clone_args (COMPONENTS ! 0) (''/'', [''tmp'', ''bt'']))
   \<and> ''--recurse-submodules'' \<notin> set (clone_args (COMPONENTS ! 0) (''/'', [''tmp'', ''bt'']))"
  by (simp add: COMPONENTS_def clone_args_def source_dir_def joinpath_def Path_def
      posix_root_def str_path_def)

section \<open>C5: the order of the configure options\<close>

text \<open>
  C5. On every platform the configure command is \<^verbatim>\<open>cmake\<close>, the
  source directory, the four shared defaults (install prefix, release profile,
  shared libraries, tests off) and then the component's own options. Where
  \<^verbatim>\<open>sys.platform\<close> does not start with \<^verbatim>\<open>win\<close> the component's options
  are the end of the list; where it does, one library-output-directory option
  follows them. This list is the one the configure process is started with.
\<close>

theorem configure_flag_order:
  "cmake_configure_args self h c bt =
     [''cmake'', str_path (source_dir bt c)]
     @ [''-DCMAKE_INSTALL_PREFIX='' @ str_path (install_prefix h),
        ''-DCMAKE_BUILD_TYPE=Release'', ''-DBUILD_SHARED_LIBS=ON'', ''-DBUILD_TESTING=OFF'']
     @ get_cmake_args c
     @ (if startswith (sys_platform h) ''win''
        then [''-DCMAKE_LIBRARY_OUTPUT_DIRECTORY='' @ build_lib self] else [])
   \<and> (\<not> startswith (sys_platform h) ''win'' \<longrightarrow>
        drop 6 (cmake_configure_args self h c bt) = get_cmake_args c)
   \<and> (startswith (sys_platform h) ''win'' \<longrightarrow>
        drop 6 (cmake_configure_args self h c bt) =
          get_cmake_args c @ [''-DCMAKE_LIBRARY_OUTPUT_DIRECTORY='' @ build_lib self])
   \<and> trace (snd (configure_cmake self h c bt w)) =
        trace w @ [Print ''Configuring with CMake...'',
                   Print (''Command: '' @ join_str '' '' (cmake_configure_args self h c bt)),
                   Exec (cmake_configure_args self h c bt) (Some (build_dir bt c))]"
  by (simp add: cmake_configure_args_def trace_configure_cmake)

theorem configure_flag_order_witness:
  "drop 6 (cmake_configure_args (CMakeBuild ''build/temp'' ''build/lib'' NoneVal)
       (scripted_host ''linux'' (Some 8) (\<lambda>argv. Exited 0 [])) (COMPONENTS ! 0)
       (''/'', [''tmp'', ''bt''])) =
     [''-DHSHM_ENABLE_CUDA=OFF'', ''-DHSHM_ENABLE_ROCM=OFF'',
      ''-DHSHM_ENABLE_MPI=OFF'', ''-DHSHM_ENABLE_ZMQ=OFF'']
   \<and> drop 6 (cmake_configure_args (CMakeBuild ''build/temp'' ''build/lib'' NoneVal)
       (scripted_host ''win32'' (Some 8) (\<lambda>argv. Exited 0 [])) (COMPONENTS ! 0)
       (''/'', [''tmp'', ''bt''])) =
     [''-DHSHM_ENABLE_CUDA=OFF'', ''-DHSHM_ENABLE_ROCM=OFF'',
      ''-DHSHM_ENABLE_MPI=OFF'', ''-DHSHM_ENABLE_ZMQ=OFF'',
      ''-DCMAKE_LIBRARY_OUTPUT_DIRECTORY=build/lib'']"
  using
    configure_flag_order [of "CMakeBuild ''build/temp'' ''build/lib'' NoneVal"
      "scripted_host ''linux'' (Some 8) (\<lambda>argv. Exited 0 [])" "COMPONENTS ! 0"
      "(''/'', [''tmp'', ''bt''])" world0]
    configure_flag_order [of "CMakeBuild ''build/temp'' ''build/lib'' NoneVal"
      "scripted_host ''win32'' (Some 8) (\<lambda>argv. Exited 0 [])" "COMPONENTS ! 0"
      "(''/'', [''tmp'', ''bt''])" world0]
  by (simp add: COMPONENTS_def CMakeBuild_def scripted_host_def startswith_def
      get_cmake_args_def)

text \<open>
  On \<^verbatim>\<open>win32\<close> the last option of the configure command of the first
  component is the library output directory, not the component's last option.
\<close>

theorem options_not_last_counterexample:
  "last (cmake_configure_args (CMakeBuild ''build/temp'' ''build/lib'' NoneVal)
       (scripted_host ''win32'' (Some 8) (\<lambda>argv. Exited 0 [])) (COMPONENTS ! 0)
       (''/'', [''tmp'', ''bt''])) = ''-DCMAKE_LIBRARY_OUTPUT_DIRECTORY=build/lib''
   \<and> last (get_cmake_args (COMPONENTS ! 0)) = ''-DHSHM_ENABLE_ZMQ=OFF''"
  by (simp add: cmake_configure_args_def COMPONENTS_def CMakeBuild_def scripted_host_def
      startswith_def get_cmake_args_def)

section \<open>C7: the degree of parallelism\<close>

text \<open>
  C7. A non-zero integer \<^verbatim>\<open>self.parallel\<close> is passed verbatim
  after \<^verbatim>\<open>--parallel\<close>. When the attribute is absent, \<^verbatim>\<open>None\<close> or zero,
  the host's \<^verbatim>\<open>cpu_count()\<close> is passed instead. The build process is started
  with exactly this argument list, in the build directory.
\<close>

theorem parallelism_resolution:
  "(\<forall>p. parallel self = IntVal p \<and> p \<noteq> 0 \<longrightarrow>
        build_args self h =
          Inr [''cmake'', ''--build'', ''.'', ''--config'', ''Release'', ''--parallel'', str_int p])
   \<and> (\<forall>n. (parallel self = Missing \<or> parallel self = NoneVal \<or> parallel self = IntVal 0)
           \<and> cpu_count h = Some n \<longrightarrow>
        build_args self h =
          Inr [''cmake'', ''--build'', ''.'', ''--config'', ''Release'', ''--parallel'', str_int n])
   \<and> (\<forall>args. build_args self h = Inr args \<longrightarrow>
        trace (snd (build self h c bt w)) =
          trace w @ [Print (''Building '' @ name c @ ''...''),
                     Exec args (Some (build_dir bt c))])"
  by (auto simp: build_args_def trace_build)

theorem parallelism_resolution_witness:
  "build_args (CMakeBuild ''bt'' ''lib'' (IntVal 4))
       (scripted_host ''linux'' (Some 8) (\<lambda>argv. Exited 0 [])) =
     Inr [''cmake'', ''--build'', ''.'', ''--config'', ''Release'', ''--parallel'', ''4'']
   \<and> build_args (CMakeBuild ''bt'' ''lib'' NoneVal)
       (scripted_host ''linux'' (Some 8) (\<lambda>argv. Exited 0 [])) =
     Inr [''cmake'', ''--build'', ''.'', ''--config'', ''Release'', ''--parallel'', ''8'']"
  using
    parallelism_resolution [of "CMakeBuild ''bt'' ''lib'' (IntVal 4)"
      "scripted_host ''linux'' (Some 8) (\<lambda>argv. Exited 0 [])" "three ! 0"
      "(''/'', [''tmp'', ''bt''])" world0]
    parallelism_resolution [of "CMakeBuild ''bt'' ''lib'' NoneVal"
      "scripted_host ''linux'' (Some 8) (\<lambda>argv. Exited 0 [])" "three ! 0"
      "(''/'', [''tmp'', ''bt''])" world0]
  by (simp add: CMakeBuild_def scripted_host_def str_int_def str_nat.simps)

text \<open>
  With \<^verbatim>\<open>self.parallel = 0\<close> on a host of eight cores the build is asked
  for \<^verbatim>\<open>--parallel 8\<close>, not for the \<^verbatim>\<open>0\<close> that was supplied.
\<close>

theorem zero_override_counterexample:
  "build_args (CMakeBuild ''bt'' ''lib'' (IntVal 0))
       (scripted_host ''linux'' (Some 8) (\<lambda>argv. Exited 0 [])) =
     Inr [''cmake'', ''--build'', ''.'', ''--config'', ''Release'', ''--parallel'', ''8'']
   \<and> str_int 0 = ''0''"
  by (simp add: build_args_def CMakeBuild_def scripted_host_def str_int_def str_nat.simps)

section \<open>C8: one install prefix for all components\<close>

text \<open>
  C8. The third argument of every configure command is the install-prefix option
  built from the host's \<^verbatim>\<open>sys.prefix\<close> made absolute against the working
  directory: it is the same for any two components, command objects and build
  roots, and no component of \<^verbatim>\<open>COMPONENTS\<close> passes a prefix option of its
  own. With an absolute working directory the prefix is an absolute path, so it
  names one directory wherever the configure process runs. The install stage
  runs \<^verbatim>\<open>cmake --install .\<close> with no prefix of its own, in the build directory;
  in a successful \<open>build_component\<close> that call comes after the configure call
  that carried the prefix, in the same directory.
\<close>

theorem shared_install_prefix:
  "cmake_configure_args self h c bt ! 2 =
     ''-DCMAKE_INSTALL_PREFIX='' @ str_path (install_prefix h)
   \<and> cmake_configure_args self h c bt ! 2 = cmake_configure_args self' h c' bt' ! 2
   \<and> Exec (cmake_configure_args self h c bt) (Some (build_dir bt c))
       \<in> set (trace (snd (configure_cmake self h c bt w)))
   \<and> (\<forall>c\<in>set COMPONENTS. \<forall>a\<in>set (get_cmake_args c).
        \<not> startswith a ''-DCMAKE_INSTALL_PREFIX='')
   \<and> install_prefix h = absolute (os_getcwd h) (Path (sys_prefix h))
   \<and> (fst (Path (os_getcwd h)) \<noteq> [] \<longrightarrow>
        fst (install_prefix h) \<noteq> [] \<and> take 1 (str_path (install_prefix h)) = ''/'')
   \<and> trace (snd (install h c bt w)) =
        trace w @ [Print (''Installing '' @ name c @ ''...''),
                   Exec [''cmake'', ''--install'', ''.''] (Some (build_dir bt c))]
   \<and> (fst (build_component self h c bt w) = Inr () \<longrightarrow>
        (\<exists>pre mid post. trace (snd (build_component self h c bt w)) =
           pre @ Exec (cmake_configure_args self h c bt) (Some (build_dir bt c)) # mid
               @ Exec [''cmake'', ''--install'', ''.''] (Some (build_dir bt c)) # post))"
proof -
  have a: "cmake_configure_args self h c bt ! 2 =
     ''-DCMAKE_INSTALL_PREFIX='' @ str_path (install_prefix h)"
    by (simp add: cmake_configure_args_def)
  have b: "cmake_configure_args self h c bt ! 2 = cmake_configure_args self' h c' bt' ! 2"
    by (simp add: cmake_configure_args_def)
  have c: "Exec (cmake_configure_args self h c bt) (Some (build_dir bt c))
       \<in> set (trace (snd (configure_cmake self h c bt w)))"
    by (simp add: trace_configure_cmake)
  have d: "\<forall>c\<in>set COMPONENTS. \<forall>a\<in>set (get_cmake_args c).
        \<not> startswith a ''-DCMAKE_INSTALL_PREFIX=''"
    by (simp add: COMPONENTS_def get_cmake_args_def startswith_def)
  have e: "install_prefix h = absolute (os_getcwd h) (Path (sys_prefix h))"
    by (simp add: install_prefix_def)
  have f: "fst (Path (os_getcwd h)) \<noteq> [] \<longrightarrow>
        fst (install_prefix h) \<noteq> [] \<and> take 1 (str_path (install_prefix h)) = ''/''"
    by (rule impI) (rule install_prefix_absolute)
  have g: "trace (snd (install h c bt w)) =
        trace w @ [Print (''Installing '' @ name c @ ''...''),
                   Exec [''cmake'', ''--install'', ''.''] (Some (build_dir bt c))]"
    by (simp add: trace_install install_args_def)
  have i: "fst (build_component self h c bt w) = Inr () \<longrightarrow>
        (\<exists>pre mid post. trace (snd (build_component self h c bt w)) =
           pre @ Exec (cmake_configure_args self h c bt) (Some (build_dir bt c)) # mid
               @ Exec [''cmake'', ''--install'', ''.''] (Some (build_dir bt c)) # post)"
    using build_component_ok_execs [of self h c bt w] by (simp add: install_args_def)
  from a b c d e f g i show ?thesis by (intro conjI)
qed

theorem shared_install_prefix_witness:
  "cmake_configure_args self3
       ((scripted_host ''linux'' (Some 8) (\<lambda>argv. Exited 0 []))\<lparr>sys_prefix := ''rel/env''\<rparr>)
       (three ! 0) (''/'', [''tmp'', ''bt'']) ! 2 = ''-DCMAKE_INSTALL_PREFIX=/tmp/rel/env''
   \<and> cmake_configure_args (CMakeBuild ''other'' ''lib'' (IntVal 2))
       ((scripted_host ''linux'' (Some 8) (\<lambda>argv. Exited 0 []))\<lparr>sys_prefix := ''rel/env''\<rparr>)
       (three ! 1) (''/'', [''tmp'', ''other'']) ! 2 = ''-DCMAKE_INSTALL_PREFIX=/tmp/rel/env''
   \<and> take 1 (str_path (install_prefix
       ((scripted_host ''linux'' (Some 8) (\<lambda>argv. Exited 0 []))\<lparr>sys_prefix := ''rel/env''\<rparr>)))
      = ''/''"
proof -
  define H where
    "H = (scripted_host ''linux'' (Some 8) (\<lambda>argv. Exited 0 []))\<lparr>sys_prefix := ''rel/env''\<rparr>"
  have p: "''-DCMAKE_INSTALL_PREFIX='' @ str_path (install_prefix H) =
             ''-DCMAKE_INSTALL_PREFIX=/tmp/rel/env''"
    by (simp add: H_def install_prefix_def scripted_host_def absolute_def Path_def
        posix_root_def str_path_def)
  have cwd: "fst (Path (os_getcwd H)) \<noteq> []"
    by (simp add: H_def scripted_host_def Path_def posix_root_def)
  note t = shared_install_prefix [of self3 H "three ! 0" "(''/'', [''tmp'', ''bt''])"
      "CMakeBuild ''other'' ''lib'' (IntVal 2)" "three ! 1" "(''/'', [''tmp'', ''other''])" world0]
  from t have a: "cmake_configure_args self3 H (three ! 0) (''/'', [''tmp'', ''bt'']) ! 2 =
             ''-DCMAKE_INSTALL_PREFIX='' @ str_path (install_prefix H)"
    by (elim conjE)
  from t have b: "cmake_configure_args self3 H (three ! 0) (''/'', [''tmp'', ''bt'']) ! 2 =
             cmake_configure_args (CMakeBuild ''other'' ''lib'' (IntVal 2)) H (three ! 1)
               (''/'', [''tmp'', ''other'']) ! 2"
    by (elim conjE)
  from t have f0: "fst (Path (os_getcwd H)) \<noteq> [] \<longrightarrow>
        fst (install_prefix H) \<noteq> [] \<and> take 1 (str_path (install_prefix H)) = ''/''"
    by (elim conjE)
  from f0 cwd have f: "take 1 (str_path (install_prefix H)) = ''/''"
    by simp
  from a p have a': "cmake_configure_args self3 H (three ! 0) (''/'', [''tmp'', ''bt'']) ! 2 =
             ''-DCMAKE_INSTALL_PREFIX=/tmp/rel/env''"
    by (rule trans)
  from b [symmetric] a' have b': "cmake_configure_args (CMakeBuild ''other'' ''lib'' (IntVal 2)) H
               (three ! 1) (''/'', [''tmp'', ''other'']) ! 2 =
             ''-DCMAKE_INSTALL_PREFIX=/tmp/rel/env''"
    by (rule trans)
  from a' b' f show ?thesis unfolding H_def by (intro conjI)
qed

section \<open>C9: the derived paths and the build directory\<close>

text \<open>
  C9. The source directory is \<^verbatim>\<open>build_temp / name\<close> and the build directory
  is \<^verbatim>\<open>build_temp / (name + "-build")\<close>: two components of the same name have
  the same directories, whatever else they hold. Creating the build directory
  when it is already a directory succeeds and leaves the file system as it was;
  whenever the creation succeeds the build directory is a directory afterwards;
  and no entry that was there is removed or changed. A missing build directory
  whose parent is a directory is created, and only it; when the parent is
  missing too and its own parent is a directory, both are created.
\<close>

theorem derived_paths:
  "source_dir bt c = joinpath bt (name c)
   \<and> build_dir bt c = joinpath bt (name c @ ''-build'')
   \<and> (name c = name c' \<longrightarrow>
        source_dir bt c = source_dir bt c' \<and> build_dir bt c = build_dir bt c')
   \<and> (files w (build_dir bt c) = Some Dir \<longrightarrow>
        create_build_directory c bt w = (Inr (), log (Mkdir (build_dir bt c)) w))
   \<and> (fst (create_build_directory c bt w) = Inr () \<longrightarrow>
        files (snd (create_build_directory c bt w)) (build_dir bt c) = Some Dir)
   \<and> (\<forall>q n. files w q = Some n \<longrightarrow>
        files (snd (create_build_directory c bt w)) q = Some n)
   \<and> (files w (build_dir bt c) = None \<and> files w (parent (build_dir bt c)) = Some Dir \<longrightarrow>
        create_build_directory c bt w =
          (Inr (), log (Mkdir (build_dir bt c))
                     (w\<lparr>files := (files w)(build_dir bt c \<mapsto> Dir)\<rparr>)))
   \<and> (files w (build_dir bt c) = None \<and> files w (parent (build_dir bt c)) = None \<and>
      parent (build_dir bt c) \<noteq> build_dir bt c \<and>
      files w (parent (parent (build_dir bt c))) = Some Dir \<longrightarrow>
        create_build_directory c bt w =
          (Inr (), log (Mkdir (build_dir bt c))
                     (w\<lparr>files := (files w)(parent (build_dir bt c) \<mapsto> Dir,
                                              build_dir bt c \<mapsto> Dir)\<rparr>)))"
proof -
  have p1: "source_dir bt c = joinpath bt (name c)"
    by (simp add: source_dir_def)
  have p2: "build_dir bt c = joinpath bt (name c @ ''-build'')"
    by (simp add: build_dir_def)
  have p3: "name c = name c' \<longrightarrow>
        source_dir bt c = source_dir bt c' \<and> build_dir bt c = build_dir bt c'"
    by (simp add: source_dir_def build_dir_def)
  have p4: "files w (build_dir bt c) = Some Dir \<longrightarrow>
        create_build_directory c bt w = (Inr (), log (Mkdir (build_dir bt c)) w)"
    by (simp add: create_build_directory_def mkdir_def mkdir_parents_existing)
  have p5: "fst (create_build_directory c bt w) = Inr () \<longrightarrow>
        files (snd (create_build_directory c bt w)) (build_dir bt c) = Some Dir"
  proof
    assume "fst (create_build_directory c bt w) = Inr ()"
    then have "fst (mkdir_parents (files w) (build_dir bt c)) = Inr ()"
      by (simp add: create_build_directory_def fst_mkdir)
    then have "snd (mkdir_parents (files w) (build_dir bt c)) (build_dir bt c) = Some Dir"
      by (rule mkdir_parents_creates)
    then show "files (snd (create_build_directory c bt w)) (build_dir bt c) = Some Dir"
      by (simp add: create_build_directory_def files_mkdir)
  qed
  have p6: "\<forall>q n. files w q = Some n \<longrightarrow>
        files (snd (create_build_directory c bt w)) q = Some n"
  proof (intro allI impI)
    fix q n
    assume "files w q = Some n"
    then show "files (snd (create_build_directory c bt w)) q = Some n"
      using mkdir_parents_keeps [of "files w" q n "build_dir bt c"]
      by (simp add: create_build_directory_def files_mkdir)
  qed
  have p7: "files w (build_dir bt c) = None \<and> files w (parent (build_dir bt c)) = Some Dir \<longrightarrow>
        create_build_directory c bt w =
          (Inr (), log (Mkdir (build_dir bt c))
                     (w\<lparr>files := (files w)(build_dir bt c \<mapsto> Dir)\<rparr>))"
    by (simp add: create_build_directory_def mkdir_def mkdir_parents_new)
  have p8: "files w (build_dir bt c) = None \<and> files w (parent (build_dir bt c)) = None \<and>
      parent (build_dir bt c) \<noteq> build_dir bt c \<and>
      files w (parent (parent (build_dir bt c))) = Some Dir \<longrightarrow>
        create_build_directory c bt w =
          (Inr (), log (Mkdir (build_dir bt c))
                     (w\<lparr>files := (files w)(parent (build_dir bt c) \<mapsto> Dir,
                                              build_dir bt c \<mapsto> Dir)\<rparr>))"
    by (simp add: create_build_directory_def mkdir_def mkdir_parents_new_parent)
  from p1 p2 p3 p4 p5 p6 p7 p8 show ?thesis by (intro conjI)
qed

theorem derived_paths_witness:
  "source_dir (''/'', [''tmp'', ''bt'']) (three ! 0) = (''/'', [''tmp'', ''bt'', ''a''])
   \<and> build_dir (''/'', [''tmp'', ''bt'']) (three ! 0) = (''/'', [''tmp'', ''bt'', ''a-build''])
   \<and> create_build_directory (three ! 0) (''/'', [''tmp'', ''bt''])
        (world0\<lparr>files := fs0((''/'', [''tmp'', ''bt'']) \<mapsto> Dir,
                               (''/'', [''tmp'', ''bt'', ''a-build'']) \<mapsto> Dir)\<rparr>)
      = (Inr (), log (Mkdir (''/'', [''tmp'', ''bt'', ''a-build'']))
           (world0\<lparr>files := fs0((''/'', [''tmp'', ''bt'']) \<mapsto> Dir,
                                  (''/'', [''tmp'', ''bt'', ''a-build'']) \<mapsto> Dir)\<rparr>))
   \<and> create_build_directory (three ! 0) (''/'', [''tmp'', ''bt''])
        (world0\<lparr>files := fs0((''/'', [''tmp'', ''bt'']) \<mapsto> Dir)\<rparr>)
      = (Inr (), log (Mkdir (''/'', [''tmp'', ''bt'', ''a-build'']))
           (world0\<lparr>files := fs0((''/'', [''tmp'', ''bt'']) \<mapsto> Dir,
                                  (''/'', [''tmp'', ''bt'', ''a-build'']) \<mapsto> Dir)\<rparr>))
   \<and> create_build_directory (three ! 0) (''/'', [''tmp'', ''bt'']) world0
      = (Inr (), log (Mkdir (''/'', [''tmp'', ''bt'', ''a-build'']))
           (world0\<lparr>files := fs0((''/'', [''tmp'', ''bt'']) \<mapsto> Dir,
                                  (''/'', [''tmp'', ''bt'', ''a-build'']) \<mapsto> Dir)\<rparr>))"
  using
    derived_paths [of "(''/'', [''tmp'', ''bt''])" "three ! 0" "three ! 0" world0]
    derived_paths [of "(''/'', [''tmp'', ''bt''])" "three ! 0" "three ! 0"
      "world0\<lparr>files := fs0((''/'', [''tmp'', ''bt'']) \<mapsto> Dir,
                              (''/'', [''tmp'', ''bt'', ''a-build'']) \<mapsto> Dir)\<rparr>"]
    derived_paths [of "(''/'', [''tmp'', ''bt''])" "three ! 0" "three ! 0"
      "world0\<lparr>files := fs0((''/'', [''tmp'', ''bt'']) \<mapsto> Dir)\<rparr>"]
  by (simp add: three_def joinpath_def Path_def posix_root_def build_dir_def world0_def fs0_def
      parent_def)


section \<open>C10: the probe's edge cases\<close>

text \<open>
  C10. When the process \<^verbatim>\<open>cmake --version\<close> cannot be started, \<open>run\<close> raises
  the \<^verbatim>\<open>RuntimeError\<close> that asks for CMake to be installed. When it starts
  and exits non-zero, \<open>run\<close> raises the \<^verbatim>\<open>CalledProcessError\<close> of the
  probe itself, with its status and its output. In both cases the run has done
  nothing but the probe: no directory is made and no component is touched. And
  the \<^verbatim>\<open>RuntimeError\<close> is raised in no other case.
\<close>

theorem probe_edge_cases:
  "(\<forall>f' o'. spawn h (files w) (outside w) probe_args None = (SpawnFailed, f', o') \<longrightarrow>
      run self h w =
        (Inl cmake_missing, log (Exec probe_args None) (w\<lparr>files := f', outside := o'\<rparr>)))
   \<and> (\<forall>rc out f' o'.
        spawn h (files w) (outside w) probe_args None = (Exited rc out, f', o') \<and> rc \<noteq> 0 \<longrightarrow>
        run self h w =
          (Inl (CalledProcessError rc probe_args (Some out)),
           log (Exec probe_args None) (w\<lparr>files := f', outside := o'\<rparr>)))
   \<and> (fst (run self h w) = Inl cmake_missing \<longleftrightarrow>
        fst (spawn h (files w) (outside w) probe_args None) = SpawnFailed)"
proof (intro conjI allI impI)
  fix f' o'
  assume "spawn h (files w) (outside w) probe_args None = (SpawnFailed, f', o')"
  then show "run self h w =
        (Inl cmake_missing, log (Exec probe_args None) (w\<lparr>files := f', outside := o'\<rparr>))"
    by (rule run_probe_not_started)
next
  fix rc out f' o'
  assume "spawn h (files w) (outside w) probe_args None = (Exited rc out, f', o') \<and> rc \<noteq> 0"
  then have a: "spawn h (files w) (outside w) probe_args None = (Exited rc out, f', o')"
    and b: "rc \<noteq> 0"
    by simp_all
  from a b show "run self h w =
          (Inl (CalledProcessError rc probe_args (Some out)),
           log (Exec probe_args None) (w\<lparr>files := f', outside := o'\<rparr>))"
    by (rule run_probe_nonzero)
next
  show "fst (run self h w) = Inl cmake_missing \<longleftrightarrow>
        fst (spawn h (files w) (outside w) probe_args None) = SpawnFailed"
    by (rule run_missing_iff)
qed

theorem probe_edge_cases_witness:
  "run self3 (scripted_host ''linux'' (Some 8)
        (\<lambda>argv. if take 1 argv = [''cmake''] then SpawnFailed else Exited 0 [])) world0 =
     (Inl cmake_missing, world0\<lparr>trace := [Exec [''cmake'', ''--version''] None]\<rparr>)
   \<and> run self3 (scripted_host ''linux'' (Some 8) (\<lambda>argv. Exited 3 ''boom'')) world0 =
     (Inl (CalledProcessError 3 [''cmake'', ''--version''] (Some ''boom'')),
      world0\<lparr>trace := [Exec [''cmake'', ''--version''] None]\<rparr>)"
proof -
  define H1 where "H1 = scripted_host ''linux'' (Some 8)
        (\<lambda>argv. if take 1 argv = [''cmake''] then SpawnFailed else Exited 0 [])"
  define H2 where "H2 = scripted_host ''linux'' (Some 8) (\<lambda>argv. Exited 3 ''boom'')"
  have s1: "spawn H1 (files world0) (outside world0) probe_args None = (SpawnFailed, fs0, ())"
    by (simp add: H1_def scripted_host_def scripted_spawn_def probe_args_def world0_def)
  have s2: "spawn H2 (files world0) (outside world0) probe_args None
              = (Exited 3 ''boom'', fs0, ()) \<and> (3::int) \<noteq> 0"
    by (simp add: H2_def scripted_host_def scripted_spawn_def probe_args_def world0_def)
  have l: "log (Exec probe_args None) (world0\<lparr>files := fs0, outside := ()\<rparr>) =
             world0\<lparr>trace := [Exec [''cmake'', ''--version''] None]\<rparr>"
    by (simp add: log_def world0_def probe_args_def)
  from probe_edge_cases [of H1 world0 self3] s1
  have r1: "run self3 H1 world0 =
              (Inl cmake_missing, log (Exec probe_args None) (world0\<lparr>files := fs0, outside := ()\<rparr>))"
    by blast
  from probe_edge_cases [of H2 world0 self3] s2
  have r2: "run self3 H2 world0 =
              (Inl (CalledProcessError 3 probe_args (Some ''boom'')),
               log (Exec probe_args None) (world0\<lparr>files := fs0, outside := ()\<rparr>))"
    by blast
  show ?thesis
    using r1 r2 unfolding l H1_def H2_def by (simp add: probe_args_def)
qed

section \<open>C6: what a stage failure carries\<close>

text \<open>
  C6. A \<^verbatim>\<open>CalledProcessError\<close> that leaves \<open>build_component\<close> carries a
  non-zero exit status and the command line of the stage that failed (the clone,
  the configure, the build or the install command), and no output;
  \<open>build_component\<close> raises no error of a kind of its own. Conversely, in
  each of the four stages: when the stages before it succeed and the stage's
  process exits with a non-zero status, \<open>build_component\<close> raises the
  \<^verbatim>\<open>CalledProcessError\<close> with exactly that status and that stage's command
  line, whatever the process printed. The component's name is not a field of
  the error.
\<close>

theorem stage_failure_content:
  "(\<forall>rc cmd out.
      fst (build_component self h c bt w) = Inl (CalledProcessError rc cmd out) \<longrightarrow>
      rc \<noteq> 0 \<and> out = None \<and>
      (cmd = clone_args c bt \<or> cmd = cmake_configure_args self h c bt \<or>
       build_args self h = Inr cmd \<or> cmd = install_args))
   \<and> (\<forall>s. fst (build_component self h c bt w) \<noteq> Inl (RuntimeError s))
   \<and> (\<forall>argv cwd rc out f' o'.
        spawn h (files w) (outside w) argv cwd = (Exited rc out, f', o') \<and> rc \<noteq> 0 \<longrightarrow>
        fst (check_call h argv cwd w) = Inl (CalledProcessError rc argv None))
   \<and> (\<forall>rc out f' o'.
        files w (source_dir bt c) = None \<and>
        spawn h (files w) (outside w) (clone_args c bt) None = (Exited rc out, f', o') \<and>
        rc \<noteq> 0 \<longrightarrow>
        fst (build_component self h c bt w) =
          Inl (CalledProcessError rc (clone_args c bt) None))
   \<and> (\<forall>w1 rc out f' o'.
        then_io (banner c) (then_io (clone_repository h c bt)
          (create_build_directory c bt)) w = (Inr (), w1) \<and>
        spawn h (files w1) (outside w1) (cmake_configure_args self h c bt)
          (Some (build_dir bt c)) = (Exited rc out, f', o') \<and>
        rc \<noteq> 0 \<longrightarrow>
        fst (build_component self h c bt w) =
          Inl (CalledProcessError rc (cmake_configure_args self h c bt) None))
   \<and> (\<forall>w2 args rc out f' o'.
        then_io (banner c) (then_io (clone_repository h c bt)
          (then_io (create_build_directory c bt) (configure_cmake self h c bt))) w
          = (Inr (), w2) \<and>
        build_args self h = Inr args \<and>
        spawn h (files w2) (outside w2) args (Some (build_dir bt c)) = (Exited rc out, f', o') \<and>
        rc \<noteq> 0 \<longrightarrow>
        fst (build_component self h c bt w) = Inl (CalledProcessError rc args None))
   \<and> (\<forall>w3 rc out f' o'.
        then_io (banner c) (then_io (clone_repository h c bt)
          (then_io (create_build_directory c bt)
          (then_io (configure_cmake self h c bt) (build self h c bt)))) w = (Inr (), w3) \<and>
        spawn h (files w3) (outside w3) install_args (Some (build_dir bt c)) =
          (Exited rc out, f', o') \<and>
        rc \<noteq> 0 \<longrightarrow>
        fst (build_component self h c bt w) = Inl (CalledProcessError rc install_args None))"
proof -
  have a: "\<forall>rc cmd out.
      fst (build_component self h c bt w) = Inl (CalledProcessError rc cmd out) \<longrightarrow>
      rc \<noteq> 0 \<and> out = None \<and>
      (cmd = clone_args c bt \<or> cmd = cmake_configure_args self h c bt \<or>
       build_args self h = Inr cmd \<or> cmd = install_args)"
  proof (intro allI impI)
    fix rc cmd out
    assume "fst (build_component self h c bt w) = Inl (CalledProcessError rc cmd out)"
    then have "stage_error self h c bt (CalledProcessError rc cmd out)"
      using raises_build_component [of self h c bt] unfolding raises_only_def by blast
    then show "rc \<noteq> 0 \<and> out = None \<and>
        (cmd = clone_args c bt \<or> cmd = cmake_configure_args self h c bt \<or>
         build_args self h = Inr cmd \<or> cmd = install_args)"
      by (simp add: stage_error_def)
  qed
  have b: "\<forall>s. fst (build_component self h c bt w) \<noteq> Inl (RuntimeError s)"
  proof (intro allI notI)
    fix s
    assume "fst (build_component self h c bt w) = Inl (RuntimeError s)"
    then have "stage_error self h c bt (RuntimeError s)"
      using raises_build_component [of self h c bt] unfolding raises_only_def by blast
    then show False by (simp add: stage_error_def)
  qed
  have c: "\<forall>argv cwd rc out f' o'.
        spawn h (files w) (outside w) argv cwd = (Exited rc out, f', o') \<and> rc \<noteq> 0 \<longrightarrow>
        fst (check_call h argv cwd w) = Inl (CalledProcessError rc argv None)"
    by (simp add: check_call_def)
  have d: "\<forall>rc out f' o'.
        files w (source_dir bt c) = None \<and>
        spawn h (files w) (outside w) (clone_args c bt) None = (Exited rc out, f', o') \<and>
        rc \<noteq> 0 \<longrightarrow>
        fst (build_component self h c bt w) =
          Inl (CalledProcessError rc (clone_args c bt) None)"
  proof (intro allI impI)
    fix rc out f' o'
    assume h: "files w (source_dir bt c) = None \<and>
        spawn h (files w) (outside w) (clone_args c bt) None = (Exited rc out, f', o') \<and>
        rc \<noteq> 0"
    from h have h1: "files w (source_dir bt c) = None" by (elim conjE)
    from h have h2: "spawn h (files w) (outside w) (clone_args c bt) None =
        (Exited rc out, f', o')" by (elim conjE)
    from h have h3: "rc \<noteq> 0" by (elim conjE)
    from h1 h2 h3 show "fst (build_component self h c bt w) =
          Inl (CalledProcessError rc (clone_args c bt) None)"
      by (rule build_component_clone_fails)
  qed
  have e: "\<forall>w1 rc out f' o'.
        then_io (banner c) (then_io (clone_repository h c bt)
          (create_build_directory c bt)) w = (Inr (), w1) \<and>
        spawn h (files w1) (outside w1) (cmake_configure_args self h c bt)
          (Some (build_dir bt c)) = (Exited rc out, f', o') \<and>
        rc \<noteq> 0 \<longrightarrow>
        fst (build_component self h c bt w) =
          Inl (CalledProcessError rc (cmake_configure_args self h c bt) None)"
  proof (intro allI impI)
    fix w1 rc out f' o'
    assume h: "then_io (banner c) (then_io (clone_repository h c bt)
          (create_build_directory c bt)) w = (Inr (), w1) \<and>
        spawn h (files w1) (outside w1) (cmake_configure_args self h c bt)
          (Some (build_dir bt c)) = (Exited rc out, f', o') \<and>
        rc \<noteq> 0"
    from h have h1: "then_io (banner c) (then_io (clone_repository h c bt)
          (create_build_directory c bt)) w = (Inr (), w1)" by (elim conjE)
    from h have h2: "spawn h (files w1) (outside w1) (cmake_configure_args self h c bt)
          (Some (build_dir bt c)) = (Exited rc out, f', o')" by (elim conjE)
    from h have h3: "rc \<noteq> 0" by (elim conjE)
    from h1 h2 h3 show "fst (build_component self h c bt w) =
          Inl (CalledProcessError rc (cmake_configure_args self h c bt) None)"
      by (rule build_component_configure_fails)
  qed
  have f: "\<forall>w2 args rc out f' o'.
        then_io (banner c) (then_io (clone_repository h c bt)
          (then_io (create_build_directory c bt) (configure_cmake self h c bt))) w
          = (Inr (), w2) \<and>
        build_args self h = Inr args \<and>
        spawn h (files w2) (outside w2) args (Some (build_dir bt c)) = (Exited rc out, f', o') \<and>
        rc \<noteq> 0 \<longrightarrow>
        fst (build_component self h c bt w) = Inl (CalledProcessError rc args None)"
  proof (intro allI impI)
    fix w2 args rc out f' o'
    assume h: "then_io (banner c) (then_io (clone_repository h c bt)
          (then_io (create_build_directory c bt) (configure_cmake self h c bt))) w
          = (Inr (), w2) \<and>
        build_args self h = Inr args \<and>
        spawn h (files w2) (outside w2) args (Some (build_dir bt c)) = (Exited rc out, f', o') \<and>
        rc \<noteq> 0"
    from h have h1: "then_io (banner c) (then_io (clone_repository h c bt)
          (then_io (create_build_directory c bt) (configure_cmake self h c bt))) w
          = (Inr (), w2)" by (elim conjE)
    from h have h2: "build_args self h = Inr args" by (elim conjE)
    from h have h3: "spawn h (files w2) (outside w2) args (Some (build_dir bt c)) =
          (Exited rc out, f', o')" by (elim conjE)
    from h have h4: "rc \<noteq> 0" by (elim conjE)
    from h1 h2 h3 h4 show "fst (build_component self h c bt w) =
          Inl (CalledProcessError rc args None)"
      by (rule build_component_build_fails)
  qed
  have g: "\<forall>w3 rc out f' o'.
        then_io (banner c) (then_io (clone_repository h c bt)
          (then_io (create_build_directory c bt)
          (then_io (configure_cmake self h c bt) (build self h c bt)))) w = (Inr (), w3) \<and>
        spawn h (files w3) (outside w3) install_args (Some (build_dir bt c)) =
          (Exited rc out, f', o') \<and>
        rc \<noteq> 0 \<longrightarrow>
        fst (build_component self h c bt w) = Inl (CalledProcessError rc install_args None)"
  proof (intro allI impI)
    fix w3 rc out f' o'
    assume h: "then_io (banner c) (then_io (clone_repository h c bt)
          (then_io (create_build_directory c bt)
          (then_io (configure_cmake self h c bt) (build self h c bt)))) w = (Inr (), w3) \<and>
        spawn h (files w3) (outside w3) install_args (Some (build_dir bt c)) =
          (Exited rc out, f', o') \<and>
        rc \<noteq> 0"
    from h have h1: "then_io (banner c) (then_io (clone_repository h c bt)
          (then_io (create_build_directory c bt)
          (then_io (configure_cmake self h c bt) (build self h c bt)))) w = (Inr (), w3)"
      by (elim conjE)
    from h have h2: "spawn h (files w3) (outside w3) install_args (Some (build_dir bt c)) =
          (Exited rc out, f', o')" by (elim conjE)
    from h have h3: "rc \<noteq> 0" by (elim conjE)
    from h1 h2 h3 show "fst (build_component self h c bt w) =
          Inl (CalledProcessError rc install_args None)"
      by (rule build_component_install_fails)
  qed
  from a b c d e f g show ?thesis by (intro conjI)
qed

theorem stage_failure_content_witness:
  "fst (build_component self3
         (scripted_host ''linux'' (Some 8)
            (\<lambda>argv. if take 2 argv = [''cmake'', ''--build''] then Exited 2 ''boom''
                     else Exited 0 []))
         (three ! 0) (''/'', [''tmp'', ''bt'']) world0) =
     Inl (CalledProcessError 2
            [''cmake'', ''--build'', ''.'', ''--config'', ''Release'', ''--parallel'', ''8''] None)
   \<and> fst (build_component self3
         (scripted_host ''linux'' (Some 8)
            (\<lambda>argv. if take 2 argv = [''git'', ''clone''] then Exited 128 ''fatal''
                     else Exited 0 []))
         (three ! 1) (''/'', [''tmp'', ''bt'']) world0) =
     Inl (CalledProcessError 128 [''git'', ''clone'', ''r/b'', ''/tmp/bt/b''] None)"
proof -
  define H where "H = scripted_host ''linux'' (Some 8)
            (\<lambda>argv. if take 2 argv = [''cmake'', ''--build''] then Exited 2 ''boom''
                     else Exited 0 [])"
  define G where "G = scripted_host ''linux'' (Some 8)
            (\<lambda>argv. if take 2 argv = [''git'', ''clone''] then Exited 128 ''fatal''
                     else Exited 0 [])"
  define BT :: path where "BT = (''/'', [''tmp'', ''bt''])"
  define cmd where
    "cmd = [''cmake'', ''--build'', ''.'', ''--config'', ''Release'', ''--parallel'', ''8'']"
  define P where "P = then_io (banner (three ! 0)) (then_io (clone_repository H (three ! 0) BT)
          (then_io (create_build_directory (three ! 0) BT)
             (configure_cmake self3 H (three ! 0) BT)))"
  define W2 where "W2 = snd (P world0)"
  have "fst (P world0) = Inr ()"
    unfolding P_def H_def BT_def by (simp add: model_defs self3_def three_def)
  then have h1: "P world0 = (Inr (), W2)"
    by (simp add: W2_def prod_eq_iff)
  have h2: "build_args self3 H = Inr cmd"
    by (simp add: build_args_def self3_def H_def scripted_host_def cmd_def str_int_def
        str_nat.simps)
  have h3: "spawn H (files W2) (outside W2) cmd (Some (build_dir BT (three ! 0))) =
              (Exited 2 ''boom'', files W2, outside W2)"
    by (simp add: H_def scripted_host_def scripted_spawn_def cmd_def)
  have h4: "(2::int) \<noteq> 0" by simp
  note t = stage_failure_content [of self3 H "three ! 0" BT world0]
  from t have fwd: "\<forall>w2 args rc out f' o'.
        then_io (banner (three ! 0)) (then_io (clone_repository H (three ! 0) BT)
          (then_io (create_build_directory (three ! 0) BT)
             (configure_cmake self3 H (three ! 0) BT))) world0
          = (Inr (), w2) \<and>
        build_args self3 H = Inr args \<and>
        spawn H (files w2) (outside w2) args (Some (build_dir BT (three ! 0))) =
          (Exited rc out, f', o') \<and>
        rc \<noteq> 0 \<longrightarrow>
        fst (build_component self3 H (three ! 0) BT world0) =
          Inl (CalledProcessError rc args None)"
    by (elim conjE)
  from h1 h2 h3 h4 have pre: "then_io (banner (three ! 0))
          (then_io (clone_repository H (three ! 0) BT)
          (then_io (create_build_directory (three ! 0) BT)
             (configure_cmake self3 H (three ! 0) BT))) world0
          = (Inr (), W2) \<and>
        build_args self3 H = Inr cmd \<and>
        spawn H (files W2) (outside W2) cmd (Some (build_dir BT (three ! 0))) =
          (Exited 2 ''boom'', files W2, outside W2) \<and>
        (2::int) \<noteq> 0"
    unfolding P_def by (intro conjI)
  from fwd have "then_io (banner (three ! 0))
          (then_io (clone_repository H (three ! 0) BT)
          (then_io (create_build_directory (three ! 0) BT)
             (configure_cmake self3 H (three ! 0) BT))) world0
          = (Inr (), W2) \<and>
        build_args self3 H = Inr cmd \<and>
        spawn H (files W2) (outside W2) cmd (Some (build_dir BT (three ! 0))) =
          (Exited 2 ''boom'', files W2, outside W2) \<and>
        (2::int) \<noteq> 0 \<longrightarrow>
        fst (build_component self3 H (three ! 0) BT world0) =
          Inl (CalledProcessError 2 cmd None)"
    by (elim allE)
  with pre have r1: "fst (build_component self3 H (three ! 0) BT world0) =
          Inl (CalledProcessError 2 cmd None)"
    by (rule rev_mp)
  note u = stage_failure_content [of self3 G "three ! 1" BT world0]
  from u have cl: "\<forall>rc out f' o'.
        files world0 (source_dir BT (three ! 1)) = None \<and>
        spawn G (files world0) (outside world0) (clone_args (three ! 1) BT) None =
          (Exited rc out, f', o') \<and>
        rc \<noteq> 0 \<longrightarrow>
        fst (build_component self3 G (three ! 1) BT world0) =
          Inl (CalledProcessError rc (clone_args (three ! 1) BT) None)"
    by (elim conjE)
  have g1: "files world0 (source_dir BT (three ! 1)) = None \<and>
        spawn G (files world0) (outside world0) (clone_args (three ! 1) BT) None =
          (Exited 128 ''fatal'', fs0, ()) \<and>
        (128::int) \<noteq> 0"
    by (simp add: BT_def G_def three_def source_dir_def joinpath_def Path_def posix_root_def
        clone_args_def str_path_def world0_def fs0_def scripted_host_def scripted_spawn_def)
  from cl have "files world0 (source_dir BT (three ! 1)) = None \<and>
        spawn G (files world0) (outside world0) (clone_args (three ! 1) BT) None =
          (Exited 128 ''fatal'', fs0, ()) \<and>
        (128::int) \<noteq> 0 \<longrightarrow>
        fst (build_component self3 G (three ! 1) BT world0) =
          Inl (CalledProcessError 128 (clone_args (three ! 1) BT) None)"
    by (elim allE)
  with g1 have r2: "fst (build_component self3 G (three ! 1) BT world0) =
          Inl (CalledProcessError 128 (clone_args (three ! 1) BT) None)"
    by (rule rev_mp)
  have ca: "clone_args (three ! 1) BT = [''git'', ''clone'', ''r/b'', ''/tmp/bt/b'']"
    by (simp add: BT_def three_def source_dir_def joinpath_def Path_def posix_root_def
        clone_args_def str_path_def)
  from r1 r2 show ?thesis
    unfolding ca unfolding H_def G_def BT_def cmd_def by (intro conjI)
qed

text \<open>
  Two components of different names whose build step exits with status 2, having
  printed \<^verbatim>\<open>boom\<close>, raise the same error: it holds the status and the
  build command, no output, and nothing that tells the components apart.
\<close>

theorem error_without_name_counterexample:
  "fst (build_component self3
         (scripted_host ''linux'' (Some 8)
            (\<lambda>argv. if take 2 argv = [''cmake'', ''--build''] then Exited 2 ''boom''
                     else Exited 0 []))
         (three ! 0) (''/'', [''tmp'', ''bt'']) world0) =
     Inl (CalledProcessError 2
            [''cmake'', ''--build'', ''.'', ''--config'', ''Release'', ''--parallel'', ''8''] None)
   \<and> fst (build_component self3
         (scripted_host ''linux'' (Some 8)
            (\<lambda>argv. if take 2 argv = [''cmake'', ''--build''] then Exited 2 ''boom''
                     else Exited 0 []))
         (three ! 1) (''/'', [''tmp'', ''bt'']) world0) =
     Inl (CalledProcessError 2
            [''cmake'', ''--build'', ''.'', ''--config'', ''Release'', ''--parallel'', ''8''] None)
   \<and> name (three ! 0) \<noteq> name (three ! 1)"
  by (simp add: model_defs self3_def three_def)

section \<open>C3: the probe at the start of the run\<close>

text \<open>
  C3. The first thing \<open>run\<close> does is start \<^verbatim>\<open>cmake --version\<close>,
  before any directory is made and before any component is touched. When that
  process cannot be started, \<open>run\<close> raises the \<^verbatim>\<open>RuntimeError\<close> that
  asks for CMake to be installed, and has done nothing else. The
  version-control client is not probed: over a whole run, the only processes
  started with \<^verbatim>\<open>git\<close> are clones of components of the registry.
\<close>

theorem probe_is_cmake_only:
  "(\<exists>evs. trace (snd (run self h w)) = trace w @ Exec probe_args None # evs)
   \<and> (\<forall>f' o'. spawn h (files w) (outside w) probe_args None = (SpawnFailed, f', o') \<longrightarrow>
        run self h w =
          (Inl cmake_missing, log (Exec probe_args None) (w\<lparr>files := f', outside := o'\<rparr>)))
   \<and> (\<exists>cs. set cs \<subseteq> set (self_COMPONENTS self) \<and>
        filter is_git (trace (snd (run self h w))) =
          filter is_git (trace w) @
          map (\<lambda>c. Exec (clone_args c (absolute (os_getcwd h) (Path (build_temp self)))) None)
            cs)"
proof (intro conjI allI impI)
  show "\<exists>evs. trace (snd (run self h w)) = trace w @ Exec probe_args None # evs"
    by (rule run_starts_with_probe)
next
  fix f' o'
  assume "spawn h (files w) (outside w) probe_args None = (SpawnFailed, f', o')"
  then show "run self h w =
          (Inl cmake_missing, log (Exec probe_args None) (w\<lparr>files := f', outside := o'\<rparr>))"
    by (rule run_probe_not_started)
next
  show "\<exists>cs. set cs \<subseteq> set (self_COMPONENTS self) \<and>
        filter is_git (trace (snd (run self h w))) =
          filter is_git (trace w) @
          map (\<lambda>c. Exec (clone_args c (absolute (os_getcwd h) (Path (build_temp self)))) None)
            cs"
    by (rule git_run)
qed

theorem probe_is_cmake_only_witness:
  "run (CMakeBuild ''build/temp'' ''build/lib'' NoneVal)
     (scripted_host ''linux'' (Some 8)
        (\<lambda>argv. if argv = [''cmake'', ''--version''] then SpawnFailed else Exited 0 []))
     world0 =
   (Inl (RuntimeError
      ''CMake must be installed to build iowarp-core. Install with: pip install cmake''),
    world0\<lparr>trace := [Exec [''cmake'', ''--version''] None]\<rparr>)"
proof -
  define H where "H = scripted_host ''linux'' (Some 8)
        (\<lambda>argv. if argv = [''cmake'', ''--version''] then SpawnFailed else Exited 0 [])"
  have s: "spawn H (files world0) (outside world0) probe_args None = (SpawnFailed, fs0, ())"
    by (simp add: H_def scripted_host_def scripted_spawn_def probe_args_def world0_def)
  from probe_is_cmake_only [of "CMakeBuild ''build/temp'' ''build/lib'' NoneVal" H world0] s
  have "run (CMakeBuild ''build/temp'' ''build/lib'' NoneVal) H world0 =
          (Inl cmake_missing,
           log (Exec probe_args None) (world0\<lparr>files := fs0, outside := ()\<rparr>))"
    by blast
  then show ?thesis
    unfolding H_def by (simp add: log_def world0_def probe_args_def cmake_missing_def)
qed

text \<open>
  On a host where \<^verbatim>\<open>git\<close> cannot be started and \<^verbatim>\<open>cmake\<close> can, the
  run passes the probe, makes the build root, enters the first component and
  fails in its clone with a plain \<^verbatim>\<open>OSError\<close>: the trace holds no probe of
  \<^verbatim>\<open>git\<close>.
\<close>

theorem git_absent_counterexample:
  "fst (run self3 (scripted_host ''linux'' (Some 8)
          (\<lambda>argv. if take 1 argv = [''git''] then SpawnFailed else Exited 0 [])) world0)
     = Inl OSError
   \<and> trace (snd (run self3 (scripted_host ''linux'' (Some 8)
          (\<lambda>argv. if take 1 argv = [''git''] then SpawnFailed else Exited 0 [])) world0))
     = [Exec [''cmake'', ''--version''] None,
        Mkdir (''/'', [''tmp'', ''bt'']),
        Print (CHR 0x0A # replicate 60 CHR ''=''),
        Print ''Building component: a'',
        Print (replicate 60 CHR ''='' @ [CHR 0x0A]),
        Print ''Cloning r/a...'',
        Exec [''git'', ''clone'', ''r/a'', ''/tmp/bt/a''] None]
   \<and> files (snd (run self3 (scripted_host ''linux'' (Some 8)
          (\<lambda>argv. if take 1 argv = [''git''] then SpawnFailed else Exited 0 [])) world0))
        (''/'', [''tmp'', ''bt'']) = Some Dir"
  by (simp add: model_defs self3_def three_def)

end
